theory Spec2Isabelle
  imports Main
begin

section \<open>Python values, exceptions and results\<close>

text \<open>
  The module \<^verbatim>\<open>readthedocs/oauth/utils.py\<close> handles values decoded from JSON
  (\<^verbatim>\<open>r.json()\<close>). They are modelled by their Python shape: \<^verbatim>\<open>None\<close>, a bool, an
  integer, a string, a list, or a dict. A dict is an association list in iteration order;
  a decoded dict has no duplicate keys. Non-integral numbers are not represented.
\<close>

datatype json =
    JNull
  | JBool bool
  | JNum int
  | JStr string
  | JArr "json list"
  | JObj "(string \<times> json) list"

text \<open>
  Exceptions. A constructor stands for the class and its subclasses, so \<open>ValueError\<close>
  covers the JSON decoding error of \<^verbatim>\<open>r.json()\<close>. \<open>UnboundLocalError\<close> is a
  \<^verbatim>\<open>NameError\<close>, \<open>KeyError\<close> a \<^verbatim>\<open>LookupError\<close>; \<open>DoesNotExist\<close> and
  \<open>MultipleObjectsReturned\<close> are what a queryset's \<^verbatim>\<open>get\<close> raises.
  \<open>PyException msg\<close> is \<^verbatim>\<open>Exception(msg)\<close> itself; \<open>OtherError\<close> is any other
  subclass of \<^verbatim>\<open>Exception\<close> (a connection or database error), and \<open>NonException\<close>
  is raised from outside the \<^verbatim>\<open>Exception\<close> hierarchy (\<^verbatim>\<open>KeyboardInterrupt\<close>,
  \<^verbatim>\<open>SystemExit\<close>).
\<close>

datatype exn =
    TypeError
  | ValueError
  | KeyError
  | AttributeError
  | UnboundLocalError
  | DoesNotExist
  | MultipleObjectsReturned
  | PyException string
  | OtherError string
  | NonException string

fun is_Exception :: "exn \<Rightarrow> bool" where
  "is_Exception (NonException _) = False"
| "is_Exception _ = True"

text \<open>Truth value of a Python object, as tested by \<^verbatim>\<open>if x:\<close> and \<^verbatim>\<open>while x:\<close>.\<close>

fun truthy :: "json \<Rightarrow> bool" where
  "truthy JNull = False"
| "truthy (JBool b) = b"
| "truthy (JNum n) = (n \<noteq> 0)"
| "truthy (JStr s) = (s \<noteq> [])"
| "truthy (JArr xs) = (xs \<noteq> [])"
| "truthy (JObj kvs) = (kvs \<noteq> [])"

text \<open>
  Iterating a value (\<^verbatim>\<open>for x in v\<close>, \<^verbatim>\<open>list.extend(v)\<close>): a list yields its items,
  a dict its keys, a string its characters; anything else raises \<^verbatim>\<open>TypeError\<close>.
\<close>

fun py_iter :: "json \<Rightarrow> exn + json list" where
  "py_iter (JArr xs) = Inr xs"
| "py_iter (JObj kvs) = Inr (map (\<lambda>kv. JStr (fst kv)) kvs)"
| "py_iter (JStr s) = Inr (map (\<lambda>c. JStr [c]) s)"
| "py_iter _ = Inl TypeError"

text \<open>
  Subscripting with a string key, \<^verbatim>\<open>v['key']\<close>: a dict gives the value or raises
  \<^verbatim>\<open>KeyError\<close>; every other value raises \<^verbatim>\<open>TypeError\<close>.
\<close>

fun py_getitem :: "json \<Rightarrow> string \<Rightarrow> exn + json" where
  "py_getitem (JObj kvs) k = (case map_of kvs k of None \<Rightarrow> Inl KeyError | Some v \<Rightarrow> Inr v)"
| "py_getitem _ k = Inl TypeError"

text \<open>
  The method call \<^verbatim>\<open>v.get('key')\<close>: only a dict has it (result \<^verbatim>\<open>None\<close> when the key
  is absent); on every other value the attribute lookup raises \<^verbatim>\<open>AttributeError\<close>.
\<close>

fun py_get :: "json \<Rightarrow> string \<Rightarrow> exn + json" where
  "py_get (JObj kvs) k = (case map_of kvs k of None \<Rightarrow> Inr JNull | Some v \<Rightarrow> Inr v)"
| "py_get _ k = Inl AttributeError"

text \<open>The method call \<^verbatim>\<open>v.keys()\<close>.\<close>

fun py_keys :: "json \<Rightarrow> exn + string list" where
  "py_keys (JObj kvs) = Inr (map fst kvs)"
| "py_keys _ = Inl AttributeError"

section \<open>Stored credentials, users, projects\<close>

definition GitHubProvider_id :: string where
  "GitHubProvider_id = ''github''"

definition BitbucketProvider_id :: string where
  "BitbucketProvider_id = ''bitbucket''"

record social_app =
  app_provider :: string
  client_id :: string
  secret :: string

record social_token =
  app :: social_app
  token :: string
  token_secret :: string

record social_account =
  provider :: string
  uid :: string

record user =
  username :: string
  socialaccount_set :: "social_account list"

text \<open>
  A project: its primary key, its repository URL, and the outcome of the query
  \<^verbatim>\<open>project.users.all()\<close> (the users, or the exception the database raised).
\<close>

record project =
  pk :: int
  repo :: string
  users_all :: "exn + user list"

section \<open>Sessions, requests and responses\<close>

text \<open>
  The two session classes, with the arguments \<^verbatim>\<open>get_oauth_session\<close> passes:
  \<^verbatim>\<open>OAuth2Session(client_id, token={'access_token':..., 'token_type':...})\<close> and
  \<^verbatim>\<open>OAuth1Session(client_key, client_secret, resource_owner_key, resource_owner_secret)\<close>.
\<close>

datatype session =
    OAuth2Session string string string
  | OAuth1Session string string string string

text \<open>
  The body of a POST: \<open>JsonDumps v\<close> is the text \<^verbatim>\<open>json.dumps(v)\<close>, \<open>FormData\<close> a
  dict sent form-encoded.
\<close>

datatype body =
    JsonDumps json
  | FormData "(string \<times> string) list"

text \<open>
  A request as issued: \<^verbatim>\<open>session.get(url)\<close> with whatever object \<^verbatim>\<open>url\<close> holds,
  or \<^verbatim>\<open>session.post(url, data=..., headers=...)\<close>.
\<close>

datatype request =
    GET json
  | POST string body "(string \<times> string) list"

text \<open>
  A response: \<open>json_body\<close> is what \<^verbatim>\<open>r.json()\<close> decodes (\<open>None\<close> when the body
  is not JSON and \<^verbatim>\<open>r.json()\<close> raises \<^verbatim>\<open>ValueError\<close>); \<open>links\<close> is
  \<^verbatim>\<open>r.links\<close>, the parsed \<^verbatim>\<open>Link\<close> header, a dict of dicts keyed by relation.
\<close>

record response =
  json_body :: "json option"
  links :: "(string \<times> (string \<times> string) list) list"
  status_code :: int

definition resp_json :: "response \<Rightarrow> exn + json" where
  "resp_json r = (case json_body r of None \<Rightarrow> Inl ValueError | Some j \<Rightarrow> Inr j)"

datatype log_record =
    LogError string
  | LogInfo string

text \<open>
  What a run changes: the requests issued so far, the database behind the
  \<^verbatim>\<open>RemoteRepository\<close> and \<^verbatim>\<open>RemoteOrganization\<close> managers, what has been printed, and
  the records handed to the module's logger.
\<close>

record 'db world =
  http_log :: "request list"
  db :: 'db
  printed :: "exn list"
  logged :: "log_record list"

text \<open>
  What the module reads or calls and this file does not define: the settings, the
  credential store, the network, the REST client \<^verbatim>\<open>api\<close>, the URL parsers of
  \<^verbatim>\<open>readthedocs.builds.utils\<close>, and the creation methods of the managers in
  \<^verbatim>\<open>readthedocs.oauth.models\<close>. Each is a parameter.
  \<^item> \<open>ALLOW_PRIVATE_REPOS\<close>, \<open>DONT_HIT_DB\<close>: the setting, \<open>None\<close> when it is not set;
  \<^item> \<open>social_tokens_filter username provider\<close>: the tokens selected by
    \<^verbatim>\<open>SocialToken.objects.filter(account__user__username=..., app__provider=...)\<close>, or
    the exception the query raises;
  \<^item> \<open>http history session request\<close>: the server's answer to a request, given the
    requests issued before it, or the exception the HTTP client raises;
  \<^item> \<open>api_project_token_get pk\<close>: \<^verbatim>\<open>api.project(pk).token().get()\<close>;
  \<^item> \<open>py_str\<close>: the text \<^verbatim>\<open>'%s' % v\<close> puts in place of \<^verbatim>\<open>%s\<close>.
\<close>

record ('db, 'org) env =
  ALLOW_PRIVATE_REPOS :: "bool option"
  DONT_HIT_DB :: "bool option"
  PRODUCTION_DOMAIN :: string
  social_tokens_filter :: "string \<Rightarrow> string \<Rightarrow> exn + social_token list"
  http :: "request list \<Rightarrow> session \<Rightarrow> request \<Rightarrow> exn + response"
  api_project_token_get :: "int \<Rightarrow> exn + json"
  get_github_username_repo :: "string \<Rightarrow> string option \<times> string option"
  get_bitbucket_username_repo :: "string \<Rightarrow> string option \<times> string option"
  repo_create_from_github_api :: "json \<Rightarrow> user \<Rightarrow> 'org option \<Rightarrow> 'db \<Rightarrow> exn + 'db"
  org_create_from_github_api :: "json \<Rightarrow> user \<Rightarrow> 'db \<Rightarrow> exn + 'org \<times> 'db"
  repo_create_from_bitbucket_api :: "json \<Rightarrow> user \<Rightarrow> 'db \<Rightarrow> exn + 'db"
  py_str :: "json \<Rightarrow> string"

text \<open>\<^verbatim>\<open>session.get(url)\<close>: the request is recorded, then answered.\<close>

definition session_get ::
  "('db, 'org) env \<Rightarrow> session \<Rightarrow> json \<Rightarrow> 'db world \<Rightarrow> (exn + response) \<times> 'db world" where
  "session_get env s url w =
     (http env (http_log w) s (GET url), w\<lparr>http_log := http_log w @ [GET url]\<rparr>)"

section \<open>Session provider\<close>

definition get_oauth_session ::
  "('db, 'org) env \<Rightarrow> user \<Rightarrow> string \<Rightarrow> exn + session option" where
  "get_oauth_session env u prov =
     (case social_tokens_filter env (username u) prov of
        Inl e \<Rightarrow> Inl e
      | Inr tokens \<Rightarrow>
          (case tokens of
             [] \<Rightarrow> Inr None
           | t # _ \<Rightarrow>
               if prov = GitHubProvider_id then
                 Inr (Some (OAuth2Session (client_id (app t)) (token t) ''bearer''))
               else if prov = BitbucketProvider_id then
                 Inr (Some (OAuth1Session (client_id (app t)) (secret (app t))
                                          (token t) (token_secret t)))
               else Inl UnboundLocalError))"

section \<open>Paginators\<close>

text \<open>\<^verbatim>\<open>r.links.get('next')\<close>, then \<^verbatim>\<open>next_url.get('url')\<close> when that is a non-empty dict.\<close>

definition github_next :: "response \<Rightarrow> json" where
  "github_next r =
     (case map_of (links r) ''next'' of
        None \<Rightarrow> JNull
      | Some next_url \<Rightarrow>
          if next_url \<noteq> [] then
            (case map_of next_url ''url'' of None \<Rightarrow> JNull | Some u \<Rightarrow> JStr u)
          else JNull)"

partial_function (option) github_paginate_loop ::
  "('db, 'org) env \<Rightarrow> session \<Rightarrow> json \<Rightarrow> json list \<Rightarrow> 'db world
     \<Rightarrow> ((exn + json list) \<times> 'db world) option" where
  "github_paginate_loop env s url result w =
     (if truthy url then
        (case session_get env s url w of
           (Inl e, w') \<Rightarrow> Some (Inl e, w')
         | (Inr r, w') \<Rightarrow>
             (case resp_json r of
                Inl e \<Rightarrow> Some (Inl e, w')
              | Inr j \<Rightarrow>
                  (case py_iter j of
                     Inl e \<Rightarrow> Some (Inl e, w')
                   | Inr items \<Rightarrow> github_paginate_loop env s (github_next r) (result @ items) w')))
      else Some (Inr result, w))"

definition github_paginate ::
  "('db, 'org) env \<Rightarrow> session \<Rightarrow> string \<Rightarrow> 'db world \<Rightarrow> ((exn + json list) \<times> 'db world) option" where
  "github_paginate env s url w = github_paginate_loop env s (JStr url) [] w"

text \<open>
  \<^verbatim>\<open>bitbucket_paginate\<close>: the page object itself is appended, and the next URL is whatever
  truthy value the page holds under \<^verbatim>\<open>'next'\<close>.
\<close>

partial_function (option) bitbucket_paginate_loop ::
  "('db, 'org) env \<Rightarrow> session \<Rightarrow> json \<Rightarrow> json list \<Rightarrow> 'db world
     \<Rightarrow> ((exn + json list) \<times> 'db world) option" where
  "bitbucket_paginate_loop env s url result w =
     (if truthy url then
        (case session_get env s url w of
           (Inl e, w') \<Rightarrow> Some (Inl e, w')
         | (Inr r, w') \<Rightarrow>
             (case resp_json r of
                Inl e \<Rightarrow> Some (Inl e, w')
              | Inr j \<Rightarrow>
                  (case py_get j ''next'' of
                     Inl e \<Rightarrow> Some (Inl e, w')
                   | Inr next_url \<Rightarrow>
                       bitbucket_paginate_loop env s
                         (if truthy next_url then next_url else JNull) (result @ [j]) w')))
      else Some (Inr result, w))"

definition bitbucket_paginate ::
  "('db, 'org) env \<Rightarrow> session \<Rightarrow> string \<Rightarrow> 'db world \<Rightarrow> ((exn + json list) \<times> 'db world) option" where
  "bitbucket_paginate env s url w = bitbucket_paginate_loop env s (JStr url) [] w"

section \<open>Project token lookup\<close>

text \<open>
  The loop over \<^verbatim>\<open>project.users.all()\<close>. It returns the exception that ended it, if
  any, and the value the variable \<^verbatim>\<open>token\<close> holds at that point.
\<close>

fun token_for_users :: "('db, 'org) env \<Rightarrow> user list \<Rightarrow> json \<Rightarrow> exn option \<times> json" where
  "token_for_users env [] tok = (None, tok)"
| "token_for_users env (u # us) tok =
     (case social_tokens_filter env (username u) GitHubProvider_id of
        Inl e \<Rightarrow> (Some e, tok)
      | Inr tokens \<Rightarrow>
          token_for_users env us (case tokens of [] \<Rightarrow> tok | t # _ \<Rightarrow> JStr (token t)))"

text \<open>The body of the \<^verbatim>\<open>try\<close> block, started with \<^verbatim>\<open>token = None\<close>.\<close>

definition token_lookup ::
  "('db, 'org) env \<Rightarrow> project \<Rightarrow> bool \<Rightarrow> exn option \<times> json" where
  "token_lookup env p force_local =
     (if (case DONT_HIT_DB env of None \<Rightarrow> True | Some b \<Rightarrow> b) \<and> \<not> force_local then
        (case api_project_token_get env (pk p) of
           Inl e \<Rightarrow> (Some e, JNull)
         | Inr j \<Rightarrow>
             (case py_getitem j ''token'' of
                Inl e \<Rightarrow> (Some e, JNull)
              | Inr t \<Rightarrow> (None, t)))
      else
        (case users_all p of
           Inl e \<Rightarrow> (Some e, JNull)
         | Inr us \<Rightarrow> token_for_users env us JNull))"

text \<open>The result \<open>JNull\<close> is Python's \<^verbatim>\<open>None\<close>.\<close>

definition get_token_for_project ::
  "('db, 'org) env \<Rightarrow> project \<Rightarrow> bool \<Rightarrow> 'db world \<Rightarrow> (exn + json) \<times> 'db world" where
  "get_token_for_project env p force_local w =
     (if \<not> (case ALLOW_PRIVATE_REPOS env of None \<Rightarrow> False | Some b \<Rightarrow> b) then (Inr JNull, w)
      else
        (case token_lookup env p force_local of
           (None, tok) \<Rightarrow> (Inr tok, w)
         | (Some e, tok) \<Rightarrow>
             if is_Exception e then
               (Inr tok, w\<lparr>logged := logged w @ [LogError ''Failed to get token for user'']\<rparr>)
             else (Inl e, w)))"

section \<open>GitHub importer\<close>

definition github_repos_msg :: string where
  "github_repos_msg = ''Could not sync your GitHub repositories, try reconnecting your account''"

definition github_orgs_msg :: string where
  "github_orgs_msg = ''Could not sync your GitHub organizations, try reconnecting your account''"

text \<open>
  \<^verbatim>\<open>for repo in repos: RemoteRepository.objects.create_from_github_api(repo, user=user,
  organization=org)\<close>: a call that raises ends the loop and leaves the database as the
  calls before it made it.
\<close>

fun github_create_repos ::
  "('db, 'org) env \<Rightarrow> user \<Rightarrow> 'org option \<Rightarrow> json list \<Rightarrow> 'db world \<Rightarrow> (exn + unit) \<times> 'db world" where
  "github_create_repos env u org [] w = (Inr (), w)"
| "github_create_repos env u org (r # rs) w =
     (case repo_create_from_github_api env r u org (db w) of
        Inl e \<Rightarrow> (Inl e, w)
      | Inr d \<Rightarrow> github_create_repos env u org rs (w\<lparr>db := d\<rparr>))"

text \<open>One iteration of the loop over the organizations.\<close>

definition github_import_org ::
  "('db, 'org) env \<Rightarrow> session \<Rightarrow> user \<Rightarrow> json \<Rightarrow> 'db world \<Rightarrow> ((exn + unit) \<times> 'db world) option" where
  "github_import_org env s u org_json w =
     (case py_getitem org_json ''login'' of
        Inl e \<Rightarrow> Some (Inl e, w)
      | Inr login \<Rightarrow>
          (case session_get env s (JStr (''https://api.github.com/orgs/'' @ py_str env login)) w of
             (Inl e, w1) \<Rightarrow> Some (Inl e, w1)
           | (Inr org_resp, w1) \<Rightarrow>
               (case resp_json org_resp of
                  Inl e \<Rightarrow> Some (Inl e, w1)
                | Inr oj \<Rightarrow>
                    (case org_create_from_github_api env oj u (db w1) of
                       Inl e \<Rightarrow> Some (Inl e, w1)
                     | Inr (org_obj, d) \<Rightarrow>
                         (case github_paginate env s
                                 (''https://api.github.com/orgs/'' @ py_str env login
                                    @ ''/repos?per_page=100'')
                                 (w1\<lparr>db := d\<rparr>) of
                            None \<Rightarrow> None
                          | Some (Inl e, w2) \<Rightarrow> Some (Inl e, w2)
                          | Some (Inr org_repos_resp, w2) \<Rightarrow>
                              Some (github_create_repos env u (Some org_obj) org_repos_resp w2))))))"

fun github_import_orgs ::
  "('db, 'org) env \<Rightarrow> session \<Rightarrow> user \<Rightarrow> json list \<Rightarrow> 'db world \<Rightarrow> ((exn + unit) \<times> 'db world) option" where
  "github_import_orgs env s u [] w = Some (Inr (), w)"
| "github_import_orgs env s u (org_json # rest) w =
     (case github_import_org env s u org_json w of
        None \<Rightarrow> None
      | Some (Inl e, w') \<Rightarrow> Some (Inl e, w')
      | Some (Inr _, w') \<Rightarrow> github_import_orgs env s u rest w')"

text \<open>The body of the second \<^verbatim>\<open>try\<close> block of \<^verbatim>\<open>import_github\<close>.\<close>

definition github_org_phase ::
  "('db, 'org) env \<Rightarrow> session \<Rightarrow> user \<Rightarrow> 'db world \<Rightarrow> ((exn + unit) \<times> 'db world) option" where
  "github_org_phase env s u w =
     (case session_get env s (JStr ''https://api.github.com/user/orgs'') w of
        (Inl e, w1) \<Rightarrow> Some (Inl e, w1)
      | (Inr resp, w1) \<Rightarrow>
          (case resp_json resp of
             Inl e \<Rightarrow> Some (Inl e, w1)
           | Inr j \<Rightarrow>
               (case py_iter j of
                  Inl e \<Rightarrow> Some (Inl e, w1)
                | Inr orgs \<Rightarrow> github_import_orgs env s u orgs w1)))"

text \<open>
  \<^verbatim>\<open>import_github\<close>. The first pagination stands before the first \<^verbatim>\<open>try\<close>, so what it
  raises is not translated. The result is \<^verbatim>\<open>session is not None\<close>.
\<close>

definition import_github ::
  "('db, 'org) env \<Rightarrow> user \<Rightarrow> bool \<Rightarrow> 'db world \<Rightarrow> ((exn + bool) \<times> 'db world) option" where
  "import_github env u sync w =
     (case get_oauth_session env u GitHubProvider_id of
        Inl e \<Rightarrow> Some (Inl e, w)
      | Inr None \<Rightarrow> Some (Inr False, w)
      | Inr (Some s) \<Rightarrow>
          if \<not> sync then Some (Inr True, w)
          else
            (case github_paginate env s ''https://api.github.com/user/repos?per_page=100'' w of
               None \<Rightarrow> None
             | Some (Inl e, w1) \<Rightarrow> Some (Inl e, w1)
             | Some (Inr owner_resp, w1) \<Rightarrow>
                 (case github_create_repos env u None owner_resp w1 of
                    (Inl e, w2) \<Rightarrow>
                      Some (Inl (if e = TypeError \<or> e = ValueError
                                 then PyException github_repos_msg else e), w2)
                  | (Inr _, w2) \<Rightarrow>
                      (case github_org_phase env s u w2 of
                         None \<Rightarrow> None
                       | Some (Inl e, w3) \<Rightarrow>
                           Some (Inl (if e = TypeError \<or> e = ValueError
                                      then PyException github_orgs_msg else e), w3)
                       | Some (Inr _, w3) \<Rightarrow> Some (Inr True, w3)))))"

section \<open>Webhook registration\<close>

text \<open>Decimal text of an integer, as \<^verbatim>\<open>format\<close> writes a status code.\<close>

definition digit_char :: "nat \<Rightarrow> char" where
  "digit_char d = char_of (48 + d)"

function str_nat :: "nat \<Rightarrow> string" where
  "str_nat n = (if n < 10 then [digit_char n] else str_nat (n div 10) @ [digit_char (n mod 10)])"
  by pat_completeness auto
termination
  by (relation "measure (\<lambda>n. n)") auto

definition str_int :: "int \<Rightarrow> string" where
  "str_int i = (if i < 0 then CHR ''-'' # str_nat (nat (- i)) else str_nat (nat i))"

text \<open>What \<^verbatim>\<open>format\<close> writes for a value that is a string or \<^verbatim>\<open>None\<close>.\<close>

definition format_opt :: "string option \<Rightarrow> string" where
  "format_opt v = (case v of None \<Rightarrow> ''None'' | Some s \<Rightarrow> s)"

text \<open>\<^verbatim>\<open>session.post(url, data=..., headers=...)\<close>: the request is recorded, then answered.\<close>

definition session_post ::
  "('db, 'org) env \<Rightarrow> session \<Rightarrow> string \<Rightarrow> body \<Rightarrow> (string \<times> string) list \<Rightarrow> 'db world
     \<Rightarrow> (exn + response) \<times> 'db world" where
  "session_post env s url data headers w =
     (http env (http_log w) s (POST url data headers),
      w\<lparr>http_log := http_log w @ [POST url data headers]\<rparr>)"

definition add_github_webhook ::
  "('db, 'org) env \<Rightarrow> session \<Rightarrow> project \<Rightarrow> 'db world \<Rightarrow> (exn + response) \<times> 'db world" where
  "add_github_webhook env s p w =
     (case get_github_username_repo env (repo p) of
        (owner, repo_name) \<Rightarrow>
          (let data = JsonDumps (JObj
                 [(''name'', JStr ''readthedocs''),
                  (''active'', JBool True),
                  (''config'', JObj [(''url'',
                      JStr (''https://'' @ PRODUCTION_DOMAIN env @ ''/github''))])])
           in case session_post env s
                     (''https://api.github.com/repos/'' @ format_opt owner @ ''/''
                        @ format_opt repo_name @ ''/hooks'')
                     data [(''content-type'', ''application/json'')] w of
                (Inl e, w') \<Rightarrow> (Inl e, w')
              | (Inr resp, w') \<Rightarrow>
                  (Inr resp,
                   w'\<lparr>logged := logged w' @
                        [LogInfo (''Creating GitHub webhook response code: ''
                                    @ str_int (status_code resp))]\<rparr>)))"

definition add_bitbucket_webhook ::
  "('db, 'org) env \<Rightarrow> session \<Rightarrow> project \<Rightarrow> 'db world \<Rightarrow> (exn + response) \<times> 'db world" where
  "add_bitbucket_webhook env s p w =
     (case get_bitbucket_username_repo env (repo p) of
        (owner, repo_name) \<Rightarrow>
          (let data = FormData
                 [(''type'', ''POST''),
                  (''url'', ''https://'' @ PRODUCTION_DOMAIN env @ ''/bitbucket'')]
           in case session_post env s
                     (''https://api.bitbucket.org/1.0/repositories/'' @ format_opt owner @ ''/''
                        @ format_opt repo_name @ ''/services'')
                     data [] w of
                (Inl e, w') \<Rightarrow> (Inl e, w')
              | (Inr resp, w') \<Rightarrow>
                  (Inr resp,
                   w'\<lparr>logged := logged w' @
                        [LogInfo (''Creating BitBucket webhook response code: ''
                                    @ str_int (status_code resp))]\<rparr>)))"

section \<open>Bitbucket importer\<close>

definition bitbucket_repos_msg :: string where
  "bitbucket_repos_msg =
     ''Could not sync your Bitbucket repositories, try reconnecting your account''"

definition bitbucket_teams_msg :: string where
  "bitbucket_teams_msg =
     ''Could not sync your Bitbucket team repositories, try reconnecting your account''"

text \<open>\<^verbatim>\<open>for repo in ...: RemoteRepository.objects.create_from_bitbucket_api(repo, user=user)\<close>\<close>

fun bitbucket_create_repos ::
  "('db, 'org) env \<Rightarrow> user \<Rightarrow> json list \<Rightarrow> 'db world \<Rightarrow> (exn + unit) \<times> 'db world" where
  "bitbucket_create_repos env u [] w = (Inr (), w)"
| "bitbucket_create_repos env u (r # rs) w =
     (case repo_create_from_bitbucket_api env r u (db w) of
        Inl e \<Rightarrow> (Inl e, w)
      | Inr d \<Rightarrow> bitbucket_create_repos env u rs (w\<lparr>db := d\<rparr>))"

text \<open>The two nested loops inside the \<^verbatim>\<open>try\<close> of \<^verbatim>\<open>process_bitbucket_json\<close>.\<close>

fun bitbucket_process_pages ::
  "('db, 'org) env \<Rightarrow> user \<Rightarrow> json list \<Rightarrow> 'db world \<Rightarrow> (exn + unit) \<times> 'db world" where
  "bitbucket_process_pages env u [] w = (Inr (), w)"
| "bitbucket_process_pages env u (page # pages) w =
     (case py_getitem page ''values'' of
        Inl e \<Rightarrow> (Inl e, w)
      | Inr vs \<Rightarrow>
          (case py_iter vs of
             Inl e \<Rightarrow> (Inl e, w)
           | Inr repos \<Rightarrow>
               (case bitbucket_create_repos env u repos w of
                  (Inl e, w') \<Rightarrow> (Inl e, w')
                | (Inr _, w') \<Rightarrow> bitbucket_process_pages env u pages w')))"

text \<open>\<^verbatim>\<open>except TypeError as e: print(e)\<close>, after which the function returns.\<close>

definition process_bitbucket_json ::
  "('db, 'org) env \<Rightarrow> user \<Rightarrow> json list \<Rightarrow> 'db world \<Rightarrow> (exn + unit) \<times> 'db world" where
  "process_bitbucket_json env u pages w =
     (case bitbucket_process_pages env u pages w of
        (Inl e, w') \<Rightarrow>
          if e = TypeError then (Inr (), w'\<lparr>printed := printed w' @ [e]\<rparr>) else (Inl e, w')
      | (Inr _, w') \<Rightarrow> (Inr (), w'))"

text \<open>
  \<^verbatim>\<open>user.socialaccount_set.get(provider=...)\<close>: the one matching record; \<^verbatim>\<open>DoesNotExist\<close>
  when there is none, \<^verbatim>\<open>MultipleObjectsReturned\<close> when there are several.
\<close>

definition socialaccount_get :: "user \<Rightarrow> string \<Rightarrow> exn + social_account" where
  "socialaccount_get u prov =
     (case filter (\<lambda>a. provider a = prov) (socialaccount_set u) of
        [] \<Rightarrow> Inl DoesNotExist
      | [a] \<Rightarrow> Inr a
      | _ \<Rightarrow> Inl MultipleObjectsReturned)"

text \<open>
  The body of the first \<^verbatim>\<open>try\<close> block of \<^verbatim>\<open>import_bitbucket\<close>. The variable
  \<^verbatim>\<open>social_account\<close> is \<open>None\<close> when the lookup before it raised \<^verbatim>\<open>DoesNotExist\<close> and
  left it unassigned; reading it then raises \<^verbatim>\<open>UnboundLocalError\<close>.
\<close>

definition bitbucket_user_phase ::
  "('db, 'org) env \<Rightarrow> session \<Rightarrow> user \<Rightarrow> social_account option \<Rightarrow> 'db world
     \<Rightarrow> ((exn + unit) \<times> 'db world) option" where
  "bitbucket_user_phase env s u social_account w =
     (case social_account of
        None \<Rightarrow> Some (Inl UnboundLocalError, w)
      | Some a \<Rightarrow>
          (case bitbucket_paginate env s
                  (''https://bitbucket.org/api/2.0/repositories/'' @ uid a) w of
             None \<Rightarrow> None
           | Some (Inl e, w1) \<Rightarrow> Some (Inl e, w1)
           | Some (Inr owner_resp, w1) \<Rightarrow> Some (process_bitbucket_json env u owner_resp w1)))"

fun bitbucket_import_teams ::
  "('db, 'org) env \<Rightarrow> session \<Rightarrow> user \<Rightarrow> string list \<Rightarrow> 'db world
     \<Rightarrow> ((exn + unit) \<times> 'db world) option" where
  "bitbucket_import_teams env s u [] w = Some (Inr (), w)"
| "bitbucket_import_teams env s u (team # teams) w =
     (case bitbucket_paginate env s
             (''https://bitbucket.org/api/2.0/teams/'' @ team @ ''/repositories'') w of
        None \<Rightarrow> None
      | Some (Inl e, w1) \<Rightarrow> Some (Inl e, w1)
      | Some (Inr org_resp, w1) \<Rightarrow>
          (case process_bitbucket_json env u org_resp w1 of
             (Inl e, w2) \<Rightarrow> Some (Inl e, w2)
           | (Inr _, w2) \<Rightarrow> bitbucket_import_teams env s u teams w2))"

text \<open>The body of the second \<^verbatim>\<open>try\<close> block, given the privileges response.\<close>

definition bitbucket_team_phase ::
  "('db, 'org) env \<Rightarrow> session \<Rightarrow> user \<Rightarrow> response \<Rightarrow> 'db world
     \<Rightarrow> ((exn + unit) \<times> 'db world) option" where
  "bitbucket_team_phase env s u resp w =
     (case resp_json resp of
        Inl e \<Rightarrow> Some (Inl e, w)
      | Inr j \<Rightarrow>
          (case py_getitem j ''teams'' of
             Inl e \<Rightarrow> Some (Inl e, w)
           | Inr t \<Rightarrow>
               (case py_keys t of
                  Inl e \<Rightarrow> Some (Inl e, w)
                | Inr teams \<Rightarrow> bitbucket_import_teams env s u teams w)))"

text \<open>
  \<^verbatim>\<open>import_bitbucket\<close>. The first handler is \<^verbatim>\<open>except (TypeError, ValueError)\<close>, the
  second \<^verbatim>\<open>except ValueError\<close>; the privileges request stands between the two blocks.
\<close>

definition import_bitbucket ::
  "('db, 'org) env \<Rightarrow> user \<Rightarrow> bool \<Rightarrow> 'db world \<Rightarrow> ((exn + bool) \<times> 'db world) option" where
  "import_bitbucket env u sync w =
     (case get_oauth_session env u BitbucketProvider_id of
        Inl e \<Rightarrow> Some (Inl e, w)
      | Inr session \<Rightarrow>
          (case (case socialaccount_get u BitbucketProvider_id of
                   Inl e \<Rightarrow> if e = DoesNotExist then Inr None else Inl e
                 | Inr a \<Rightarrow> Inr (Some a)) of
             Inl e \<Rightarrow> Some (Inl e, w)
           | Inr social_account \<Rightarrow>
               (case session of
                  None \<Rightarrow> Some (Inr False, w)
                | Some s \<Rightarrow>
                    if \<not> sync then Some (Inr True, w)
                    else
                      (case bitbucket_user_phase env s u social_account w of
                         None \<Rightarrow> None
                       | Some (Inl e, w1) \<Rightarrow>
                           Some (Inl (if e = TypeError \<or> e = ValueError
                                      then PyException bitbucket_repos_msg else e), w1)
                       | Some (Inr _, w1) \<Rightarrow>
                           (case session_get env s
                                   (JStr ''https://bitbucket.org/api/1.0/user/privileges/'') w1 of
                              (Inl e, w2) \<Rightarrow> Some (Inl e, w2)
                            | (Inr resp, w2) \<Rightarrow>
                                (case bitbucket_team_phase env s u resp w2 of
                                   None \<Rightarrow> None
                                 | Some (Inl e, w3) \<Rightarrow>
                                     Some (Inl (if e = ValueError
                                                then PyException bitbucket_teams_msg else e), w3)
                                 | Some (Inr _, w3) \<Rightarrow> Some (Inr True, w3)))))))"

section \<open>Chains of pages\<close>

text \<open>
  What the chains say of a response, stated on the \<^verbatim>\<open>Link\<close> header itself:
  \<open>link_url r rel\<close> is the URL of the link whose relation is \<open>rel\<close>, and \<open>next_link r\<close>
  the URL the \<^verbatim>\<open>next\<close> relation points to (\<open>JNull\<close> when there is none).
\<close>

definition link_url :: "response \<Rightarrow> string \<Rightarrow> string option" where
  "link_url r rel = (case map_of (links r) rel of None \<Rightarrow> None | Some l \<Rightarrow> map_of l ''url'')"

definition next_link :: "response \<Rightarrow> json" where
  "next_link r = (case link_url r ''next'' of None \<Rightarrow> JNull | Some u \<Rightarrow> JStr u)"

text \<open>
  \<open>github_pages env s hist url pages\<close>: starting from \<open>url\<close>, after the requests
  \<open>hist\<close>, the server answers with exactly the responses \<open>pages\<close>, each reached through
  the \<^verbatim>\<open>next\<close> relation of the one before, and the last one has no usable \<^verbatim>\<open>next\<close>
  relation.
\<close>

fun github_pages ::
  "('db, 'org) env \<Rightarrow> session \<Rightarrow> request list \<Rightarrow> json \<Rightarrow> response list \<Rightarrow> bool" where
  "github_pages env s hist url [] = (\<not> truthy url)"
| "github_pages env s hist url (p # ps) =
     (truthy url \<and> http env hist s (GET url) = Inr p
      \<and> github_pages env s (hist @ [GET url]) (next_link p) ps)"

text \<open>The URLs requested along such a chain.\<close>

fun github_urls :: "json \<Rightarrow> response list \<Rightarrow> json list" where
  "github_urls url [] = []"
| "github_urls url (p # ps) = url # github_urls (next_link p) ps"

text \<open>The items a page contributes, when its body decodes and can be iterated.\<close>

definition github_page_items :: "response \<Rightarrow> json list option" where
  "github_page_items p =
     (case resp_json p of
        Inl _ \<Rightarrow> None
      | Inr j \<Rightarrow> (case py_iter j of Inl _ \<Rightarrow> None | Inr items \<Rightarrow> Some items))"

text \<open>
  \<open>github_fails env s hist url pages e\<close>: the server answers with the readable responses
  \<open>pages\<close>, each linking to a further page, and the request after them, or the reading of
  its answer, raises \<open>e\<close>.
\<close>

definition github_fetch_error ::
  "('db, 'org) env \<Rightarrow> session \<Rightarrow> request list \<Rightarrow> json \<Rightarrow> exn option" where
  "github_fetch_error env s hist url =
     (case http env hist s (GET url) of
        Inl e \<Rightarrow> Some e
      | Inr p \<Rightarrow>
          (case json_body p of
             None \<Rightarrow> Some ValueError
           | Some j \<Rightarrow> (case py_iter j of Inl e \<Rightarrow> Some e | Inr _ \<Rightarrow> None)))"

fun github_fails ::
  "('db, 'org) env \<Rightarrow> session \<Rightarrow> request list \<Rightarrow> json \<Rightarrow> response list \<Rightarrow> exn \<Rightarrow> bool" where
  "github_fails env s hist url [] e = (truthy url \<and> github_fetch_error env s hist url = Some e)"
| "github_fails env s hist url (p # ps) e =
     (truthy url \<and> http env hist s (GET url) = Inr p \<and> github_page_items p \<noteq> None
      \<and> github_fails env s (hist @ [GET url]) (next_link p) ps e)"

text \<open>The same for Bitbucket, where the link is the \<^verbatim>\<open>next\<close> member of the page object.\<close>

definition bitbucket_next :: "response \<Rightarrow> json" where
  "bitbucket_next p =
     (case resp_json p of
        Inl _ \<Rightarrow> JNull
      | Inr j \<Rightarrow>
          (case py_get j ''next'' of
             Inl _ \<Rightarrow> JNull
           | Inr next_url \<Rightarrow> if truthy next_url then next_url else JNull))"

fun bitbucket_pages ::
  "('db, 'org) env \<Rightarrow> session \<Rightarrow> request list \<Rightarrow> json \<Rightarrow> response list \<Rightarrow> bool" where
  "bitbucket_pages env s hist url [] = (\<not> truthy url)"
| "bitbucket_pages env s hist url (p # ps) =
     (truthy url \<and> http env hist s (GET url) = Inr p
      \<and> bitbucket_pages env s (hist @ [GET url]) (bitbucket_next p) ps)"

fun bitbucket_urls :: "json \<Rightarrow> response list \<Rightarrow> json list" where
  "bitbucket_urls url [] = []"
| "bitbucket_urls url (p # ps) = url # bitbucket_urls (bitbucket_next p) ps"

text \<open>The page object of a response whose body decodes to a dict.\<close>

definition bitbucket_page_object :: "response \<Rightarrow> json option" where
  "bitbucket_page_object p =
     (case json_body p of Some (JObj kvs) \<Rightarrow> Some (JObj kvs) | _ \<Rightarrow> None)"

definition bitbucket_fetch_error ::
  "('db, 'org) env \<Rightarrow> session \<Rightarrow> request list \<Rightarrow> json \<Rightarrow> exn option" where
  "bitbucket_fetch_error env s hist url =
     (case http env hist s (GET url) of
        Inl e \<Rightarrow> Some e
      | Inr p \<Rightarrow>
          (case json_body p of
             None \<Rightarrow> Some ValueError
           | Some (JObj _) \<Rightarrow> None
           | Some _ \<Rightarrow> Some AttributeError))"

fun bitbucket_fails ::
  "('db, 'org) env \<Rightarrow> session \<Rightarrow> request list \<Rightarrow> json \<Rightarrow> response list \<Rightarrow> exn \<Rightarrow> bool" where
  "bitbucket_fails env s hist url [] e =
     (truthy url \<and> bitbucket_fetch_error env s hist url = Some e)"
| "bitbucket_fails env s hist url (p # ps) e =
     (truthy url \<and> http env hist s (GET url) = Inr p \<and> bitbucket_page_object p \<noteq> None
      \<and> bitbucket_fails env s (hist @ [GET url]) (bitbucket_next p) ps e)"

section \<open>What the lookups and the page processing are to yield\<close>

text \<open>
  The last credential found: of the token lists selected for the users, in order, the
  first token of the last list that is not empty; \<^verbatim>\<open>None\<close> when every list is empty.
\<close>

definition last_credential :: "social_token list list \<Rightarrow> json" where
  "last_credential tokenss =
     (case rev (filter (\<lambda>ts. ts \<noteq> []) tokenss) of
        (t # _) # _ \<Rightarrow> JStr (token t)
      | _ \<Rightarrow> JNull)"



section \<open>Sample data\<close>

text \<open>
  Concrete users, servers and collaborators on which the theorems below are instantiated.
  \<open>routes\<close> is a server that answers by URL from a table, whatever was requested
  before; \<open>json_page\<close> a response with a JSON body and an optional \<^verbatim>\<open>next\<close> link.
\<close>

definition routes ::
  "(string \<times> response) list \<Rightarrow> request list \<Rightarrow> session \<Rightarrow> request \<Rightarrow> exn + response" where
  "routes tbl hist s req =
     (case req of
        GET (JStr url) \<Rightarrow>
          (case map_of tbl url of
             Some r \<Rightarrow> Inr r
           | None \<Rightarrow> Inl (OtherError ''ConnectionError''))
      | GET _ \<Rightarrow> Inl (OtherError ''MissingSchema'')
      | POST url _ _ \<Rightarrow>
          (case map_of tbl url of
             Some r \<Rightarrow> Inr r
           | None \<Rightarrow> Inl (OtherError ''ConnectionError'')))"

definition json_page :: "json \<Rightarrow> string option \<Rightarrow> response" where
  "json_page j nxt =
     \<lparr>json_body = Some j,
      links = (case nxt of None \<Rightarrow> [] | Some u \<Rightarrow> [(''next'', [(''url'', u)])]),
      status_code = 200\<rparr>"

text \<open>
  A server whose every answer links to a further page until \<open>n\<close> requests have been
  made: the page object holds \<^verbatim>\<open>next\<close> and the \<^verbatim>\<open>Link\<close> header has a \<^verbatim>\<open>next\<close>
  relation exactly while fewer than \<open>n\<close> requests have been issued.
\<close>

definition counting_http :: "nat \<Rightarrow> request list \<Rightarrow> session \<Rightarrow> request \<Rightarrow> exn + response" where
  "counting_http n hist s req =
     Inr (if Suc (length hist) < n
          then json_page (JObj [(''next'', JStr ''more'')]) (Some ''more'')
          else json_page (JObj []) None)"

text \<open>A server whose every answer links to a further page.\<close>

definition endless_http :: "request list \<Rightarrow> session \<Rightarrow> request \<Rightarrow> exn + response" where
  "endless_http hist s req = Inr (json_page (JObj [(''next'', JStr ''more'')]) (Some ''more''))"

text \<open>
  A server whose first answer links to a further page and whose connection then drops.
\<close>

definition dropping_http :: "request list \<Rightarrow> session \<Rightarrow> request \<Rightarrow> exn + response" where
  "dropping_http hist s req =
     (if hist = [] then Inr (json_page (JObj [(''next'', JStr ''more'')]) (Some ''more''))
      else Inl (OtherError ''ConnectionError''))"

text \<open>A token store given by the (user name, provider) pairs that have a token.\<close>

definition sample_token :: "string \<Rightarrow> social_token" where
  "sample_token prov =
     \<lparr>app = \<lparr>app_provider = prov, client_id = ''client-id'', secret = ''client-secret''\<rparr>,
      token = ''access-token'', token_secret = ''token-secret''\<rparr>"

definition tokens_of ::
  "(string \<times> string) list \<Rightarrow> string \<Rightarrow> string \<Rightarrow> exn + social_token list" where
  "tokens_of tbl name prov =
     Inr (if (name, prov) \<in> set tbl then [sample_token prov] else [])"

text \<open>
  A creation method that stores a dict and raises \<^verbatim>\<open>TypeError\<close> on anything else, as
  subscripting a non-dict with a field name does.
\<close>

definition sample_create :: "json \<Rightarrow> json list \<Rightarrow> exn + json list" where
  "sample_create r d = (case r of JObj _ \<Rightarrow> Inr (d @ [r]) | _ \<Rightarrow> Inl TypeError)"

definition sample_parse :: "string \<Rightarrow> string option \<times> string option" where
  "sample_parse url =
     (if url = ''git@github.com:owner/repo.git'' then (Some ''owner'', Some ''repo'')
      else (None, None))"

definition sample_env ::
  "(string \<Rightarrow> string \<Rightarrow> exn + social_token list)
     \<Rightarrow> (request list \<Rightarrow> session \<Rightarrow> request \<Rightarrow> exn + response) \<Rightarrow> (json list, json) env" where
  "sample_env toks net =
     \<lparr>ALLOW_PRIVATE_REPOS = Some True,
      DONT_HIT_DB = Some False,
      PRODUCTION_DOMAIN = ''readthedocs.org'',
      social_tokens_filter = toks,
      http = net,
      api_project_token_get = (\<lambda>_. Inl (OtherError ''HttpClientError'')),
      get_github_username_repo = sample_parse,
      get_bitbucket_username_repo = sample_parse,
      repo_create_from_github_api = (\<lambda>r u org d. sample_create r d),
      org_create_from_github_api =
        (\<lambda>j u d. case sample_create j d of Inl e \<Rightarrow> Inl e | Inr d' \<Rightarrow> Inr (j, d')),
      repo_create_from_bitbucket_api = (\<lambda>r u d. sample_create r d),
      py_str = (\<lambda>j. case j of JStr s \<Rightarrow> s | _ \<Rightarrow> ''None'')\<rparr>"

definition w0 :: "json list world" where
  "w0 = \<lparr>http_log = [], db = [], printed = [], logged = []\<rparr>"

definition github_session :: session where
  "github_session = OAuth2Session ''client-id'' ''access-token'' ''bearer''"

definition bitbucket_session :: session where
  "bitbucket_session =
     OAuth1Session ''client-id'' ''client-secret'' ''access-token'' ''token-secret''"

definition alice :: user where
  "alice = \<lparr>username = ''alice'',
            socialaccount_set = [\<lparr>provider = ''bitbucket'', uid = ''alice-bb''\<rparr>]\<rparr>"

text \<open>A user with no social account, and one with two Bitbucket accounts.\<close>

definition bob :: user where
  "bob = \<lparr>username = ''bob'', socialaccount_set = []\<rparr>"

definition carol :: user where
  "carol = \<lparr>username = ''carol'',
            socialaccount_set = [\<lparr>provider = ''bitbucket'', uid = ''carol-1''\<rparr>,
                                 \<lparr>provider = ''bitbucket'', uid = ''carol-2''\<rparr>]\<rparr>"

text \<open>
  Three GitHub pages of 100, 100 and 1 repositories, whose headers carry the other
  relations too, and two Bitbucket pages.
\<close>

definition link_header :: "(string \<times> string) list \<Rightarrow> (string \<times> (string \<times> string) list) list" where
  "link_header rels = map (\<lambda>(rel, url). (rel, [(''url'', url), (''rel'', rel)])) rels"

definition three_pages :: "(string \<times> response) list" where
  "three_pages =
     [(''https://api.github.com/user/repos?per_page=100'',
         \<lparr>json_body = Some (JArr (replicate 100 (JObj [(''id'', JNum 1)]))),
          links = link_header [(''last'', ''https://api.github.com/page3''),
                               (''next'', ''https://api.github.com/page2'')],
          status_code = 200\<rparr>),
      (''https://api.github.com/page2'',
         \<lparr>json_body = Some (JArr (replicate 100 (JObj [(''id'', JNum 2)]))),
          links = link_header [(''prev'', ''https://api.github.com/user/repos?per_page=100''),
                               (''next'', ''https://api.github.com/page3''),
                               (''last'', ''https://api.github.com/page3''),
                               (''first'', ''https://api.github.com/user/repos?per_page=100'')],
          status_code = 200\<rparr>),
      (''https://api.github.com/page3'',
         \<lparr>json_body = Some (JArr [JObj [(''id'', JNum 3)]]),
          links = link_header [(''prev'', ''https://api.github.com/page2''),
                               (''first'', ''https://api.github.com/user/repos?per_page=100'')],
          status_code = 200\<rparr>)]"

definition two_pages :: "(string \<times> response) list" where
  "two_pages =
     [(''https://bitbucket.org/api/2.0/repositories/alice-bb'',
         json_page (JObj [(''values'', JArr [JObj [(''name'', JStr ''one'')]]),
                          (''next'', JStr ''https://bitbucket.org/api/2.0/repositories/alice-bb?page=2'')])
                   None),
      (''https://bitbucket.org/api/2.0/repositories/alice-bb?page=2'',
         json_page (JObj [(''values'', JArr [JObj [(''name'', JStr ''two'')]])]) None)]"

text \<open>
  A project at the repository URL of the webhook example, with two users; a server that
  accepts the webhook.
\<close>

definition sample_project :: project where
  "sample_project =
     \<lparr>pk = 1, repo = ''git@github.com:owner/repo.git'', users_all = Inr [alice, bob]\<rparr>"

definition hook_routes :: "(string \<times> response) list" where
  "hook_routes =
     [(''https://api.github.com/repos/owner/repo/hooks'',
         \<lparr>json_body = Some (JObj [(''id'', JNum 1)]), links = [], status_code = 201\<rparr>)]"

text \<open>
  A token store in which every user has a token named after them, but for the users of
  \<open>without\<close>, who have none, and those of \<open>failing\<close>, for whom the query fails.
\<close>

definition named_tokens ::
  "string list \<Rightarrow> string list \<Rightarrow> string \<Rightarrow> string \<Rightarrow> exn + social_token list" where
  "named_tokens failing without name prov =
     (if name \<in> set failing then Inl (OtherError ''OperationalError'')
      else if name \<in> set without then Inr []
      else Inr [(sample_token prov)\<lparr>token := ''token-of-'' @ name\<rparr>])"

definition dave :: user where
  "dave = \<lparr>username = ''dave'', socialaccount_set = []\<rparr>"

text \<open>
  Servers for the GitHub importer: the repository listing is an error object, an empty
  object, \<^verbatim>\<open>null\<close>, or an array whose second item is not an object.
\<close>

definition github_repos_url :: string where
  "github_repos_url = ''https://api.github.com/user/repos?per_page=100''"

definition bad_credentials_routes :: "(string \<times> response) list" where
  "bad_credentials_routes =
     [(github_repos_url, json_page (JObj [(''message'', JStr ''Bad credentials'')]) None)]"

definition empty_object_routes :: "(string \<times> response) list" where
  "empty_object_routes =
     [(github_repos_url, json_page (JObj []) None),
      (''https://api.github.com/user/orgs'', json_page (JArr []) None)]"

definition null_routes :: "(string \<times> response) list" where
  "null_routes = [(github_repos_url, json_page JNull None)]"

definition mixed_array_routes :: "(string \<times> response) list" where
  "mixed_array_routes =
     [(github_repos_url,
       json_page (JArr [JObj [(''name'', JStr ''one'')], JNum 5, JObj [(''name'', JStr ''two'')]])
         None)]"

text \<open>
  Servers for the Bitbucket importer (user \<open>alice\<close>): the repository page is not JSON;
  the privileges answer is not JSON; the repository page has a number under
  \<^verbatim>\<open>values\<close>; the privileges answer is an array.
\<close>

definition bitbucket_repos_url :: string where
  "bitbucket_repos_url = ''https://bitbucket.org/api/2.0/repositories/alice-bb''"

definition bitbucket_privileges_url :: string where
  "bitbucket_privileges_url = ''https://bitbucket.org/api/1.0/user/privileges/''"

definition not_json :: response where
  "not_json = \<lparr>json_body = None, links = [], status_code = 500\<rparr>"

definition repos_not_json_routes :: "(string \<times> response) list" where
  "repos_not_json_routes = [(bitbucket_repos_url, not_json)]"

definition privileges_not_json_routes :: "(string \<times> response) list" where
  "privileges_not_json_routes =
     [(bitbucket_repos_url, json_page (JObj [(''values'', JArr [])]) None),
      (bitbucket_privileges_url, not_json)]"

definition values_number_routes :: "(string \<times> response) list" where
  "values_number_routes =
     [(bitbucket_repos_url, json_page (JObj [(''values'', JNum 5)]) None),
      (bitbucket_privileges_url, json_page (JObj [(''teams'', JObj [])]) None)]"

definition privileges_array_routes :: "(string \<times> response) list" where
  "privileges_array_routes =
     [(bitbucket_repos_url, json_page (JObj [(''values'', JArr [])]) None),
      (bitbucket_privileges_url, json_page (JArr []) None)]"

text \<open>A server on which the privileges request itself raises \<^verbatim>\<open>ValueError\<close>.\<close>

definition privileges_raises_http :: "request list \<Rightarrow> session \<Rightarrow> request \<Rightarrow> exn + response" where
  "privileges_raises_http hist s req =
     (if req = GET (JStr bitbucket_privileges_url) then Inl ValueError
      else routes privileges_array_routes hist s req)"

definition alice_tokens :: "string \<Rightarrow> string \<Rightarrow> exn + social_token list" where
  "alice_tokens = tokens_of [(''alice'', ''github''), (''alice'', ''bitbucket'')]"

section \<open>The paginators along a chain of pages\<close>

text \<open>The URL the loop follows is the one the \<^verbatim>\<open>next\<close> relation points to.\<close>

lemma github_next_is_next_link: "github_next r = next_link r"
  by (simp add: github_next_def next_link_def link_url_def split: option.splits)

lemma github_loop_chain:
  "github_pages env s (http_log w) url pages \<Longrightarrow>
   map github_page_items pages = map Some itemss \<Longrightarrow>
   github_paginate_loop env s url acc w =
     Some (Inr (acc @ concat itemss), w\<lparr>http_log := http_log w @ map GET (github_urls url pages)\<rparr>)"
proof (induction pages arbitrary: url acc w itemss)
  case Nil
  then show ?case by (subst github_paginate_loop.simps) simp
next
  case (Cons p ps)
  from Cons.prems(2) obtain items rest where
    itemss: "itemss = items # rest" and
    p: "github_page_items p = Some items" and
    rest: "map github_page_items ps = map Some rest"
    by (cases itemss) auto
  from p obtain j where j: "resp_json p = Inr j" "py_iter j = Inr items"
    by (auto simp: github_page_items_def split: sum.splits)
  from Cons.prems(1) have url: "truthy url" and
    fetch: "http env (http_log w) s (GET url) = Inr p" and
    chain: "github_pages env s (http_log w @ [GET url]) (next_link p) ps"
    by simp_all
  let ?w' = "w\<lparr>http_log := http_log w @ [GET url]\<rparr>"
  have "github_paginate_loop env s url acc w =
          github_paginate_loop env s (next_link p) (acc @ items) ?w'"
    by (subst github_paginate_loop.simps)
       (simp add: url fetch j session_get_def github_next_is_next_link)
  also have "\<dots> = Some (Inr ((acc @ items) @ concat rest),
                ?w'\<lparr>http_log := http_log ?w' @ map GET (github_urls (next_link p) ps)\<rparr>)"
    using chain rest by (intro Cons.IH) simp_all
  finally show ?case by (simp add: itemss)
qed

lemma github_loop_returns:
  assumes "github_paginate_loop env s url acc w = Some y"
  shows "\<forall>r. fst y = Inr r \<longrightarrow>
     (\<exists>pages itemss. github_pages env s (http_log w) url pages \<and>
        map github_page_items pages = map Some itemss)"
  using assms
proof (induct rule: github_paginate_loop.raw_induct[rotated 1, consumes 1, case_names step])
  case (step loop env s url acc w y)
  show ?case
  proof (cases "truthy url")
    case False
    then have "github_pages env s (http_log w) url [] \<and> map github_page_items [] = map Some []"
      by simp
    then show ?thesis by blast
  next
    case True
    show ?thesis
    proof (intro allI impI)
      fix r assume r: "fst y = Inr r"
      from step(2) True r obtain p j items where
        fetch: "http env (http_log w) s (GET url) = Inr p" and
        j: "resp_json p = Inr j" and it: "py_iter j = Inr items" and
        rec: "loop env s (next_link p) (acc @ items) (w\<lparr>http_log := http_log w @ [GET url]\<rparr>) = Some y"
        by (auto simp: session_get_def github_next_is_next_link split: sum.splits)
      from step(1)[OF rec] r obtain pages itemss where
        "github_pages env s (http_log w @ [GET url]) (next_link p) pages"
        "map github_page_items pages = map Some itemss"
        by auto
      then have "github_pages env s (http_log w) url (p # pages) \<and>
          map github_page_items (p # pages) = map Some (items # itemss)"
        using True fetch j it by (simp add: github_page_items_def)
      then show "\<exists>pages itemss. github_pages env s (http_log w) url pages \<and>
        map github_page_items pages = map Some itemss" by blast
    qed
  qed
qed

lemma bitbucket_loop_chain:
  "bitbucket_pages env s (http_log w) url pages \<Longrightarrow>
   map bitbucket_page_object pages = map Some objs \<Longrightarrow>
   bitbucket_paginate_loop env s url acc w =
     Some (Inr (acc @ objs), w\<lparr>http_log := http_log w @ map GET (bitbucket_urls url pages)\<rparr>)"
proof (induction pages arbitrary: url acc w objs)
  case Nil
  then show ?case by (subst bitbucket_paginate_loop.simps) simp
next
  case (Cons p ps)
  from Cons.prems(2) obtain obj rest where
    objs: "objs = obj # rest" and
    p: "bitbucket_page_object p = Some obj" and
    rest: "map bitbucket_page_object ps = map Some rest"
    by (cases objs) auto
  from p obtain kvs where kvs: "json_body p = Some (JObj kvs)" "obj = JObj kvs"
    by (auto simp: bitbucket_page_object_def split: option.splits json.splits)
  from Cons.prems(1) have url: "truthy url" and
    fetch: "http env (http_log w) s (GET url) = Inr p" and
    chain: "bitbucket_pages env s (http_log w @ [GET url]) (bitbucket_next p) ps"
    by simp_all
  let ?w' = "w\<lparr>http_log := http_log w @ [GET url]\<rparr>"
  have "bitbucket_paginate_loop env s url acc w =
          bitbucket_paginate_loop env s (bitbucket_next p) (acc @ [obj]) ?w'"
    by (subst bitbucket_paginate_loop.simps)
       (simp add: url fetch kvs session_get_def resp_json_def bitbucket_next_def
             split: option.splits)
  also have "\<dots> = Some (Inr ((acc @ [obj]) @ rest),
                ?w'\<lparr>http_log := http_log ?w' @ map GET (bitbucket_urls (bitbucket_next p) ps)\<rparr>)"
    using chain rest by (intro Cons.IH) simp_all
  finally show ?case by (simp add: objs)
qed

lemma bitbucket_loop_returns:
  assumes "bitbucket_paginate_loop env s url acc w = Some y"
  shows "\<forall>r. fst y = Inr r \<longrightarrow>
     (\<exists>pages objs. bitbucket_pages env s (http_log w) url pages \<and>
        map bitbucket_page_object pages = map Some objs)"
  using assms
proof (induct rule: bitbucket_paginate_loop.raw_induct[rotated 1, consumes 1, case_names step])
  case (step loop env s url acc w y)
  show ?case
  proof (cases "truthy url")
    case False
    then have "bitbucket_pages env s (http_log w) url [] \<and>
        map bitbucket_page_object [] = map Some []"
      by simp
    then show ?thesis by blast
  next
    case True
    show ?thesis
    proof (intro allI impI)
      fix r assume r: "fst y = Inr r"
      from step(2) True r obtain p j nx where
        fetch: "http env (http_log w) s (GET url) = Inr p" and
        j: "resp_json p = Inr j" and nx: "py_get j ''next'' = Inr nx" and
        rec: "loop env s (if truthy nx then nx else JNull) (acc @ [j])
                (w\<lparr>http_log := http_log w @ [GET url]\<rparr>) = Some y"
        by (auto simp: session_get_def split: sum.splits)
      from nx obtain kvs where kvs: "j = JObj kvs" by (cases j) auto
      have nxt: "bitbucket_next p = (if truthy nx then nx else JNull)"
        using j nx by (simp add: bitbucket_next_def)
      have obj: "bitbucket_page_object p = Some j"
        using j kvs by (auto simp: bitbucket_page_object_def resp_json_def split: option.splits)
      from step(1)[OF rec] r obtain pages objs where
        "bitbucket_pages env s (http_log w @ [GET url]) (if truthy nx then nx else JNull) pages"
        "map bitbucket_page_object pages = map Some objs"
        by auto
      then have "bitbucket_pages env s (http_log w) url (p # pages) \<and>
          map bitbucket_page_object (p # pages) = map Some (j # objs)"
        using True fetch nxt obj by simp
      then show "\<exists>pages objs. bitbucket_pages env s (http_log w) url pages \<and>
        map bitbucket_page_object pages = map Some objs" by blast
    qed
  qed
qed

lemma map_Some_conv_list_all:
  "(\<exists>ys. map f xs = map Some ys) = list_all (\<lambda>x. f x \<noteq> None) xs"
proof (induction xs)
  case Nil
  then show ?case by simp
next
  case (Cons x xs)
  show ?case
  proof
    assume "\<exists>ys. map f (x # xs) = map Some ys"
    then obtain ys where ys: "map f (x # xs) = map Some ys" ..
    then obtain y ys' where "ys = y # ys'" by (cases ys) auto
    with ys have "f x = Some y" "map f xs = map Some ys'" by auto
    with Cons.IH show "list_all (\<lambda>x. f x \<noteq> None) (x # xs)" by auto
  next
    assume "list_all (\<lambda>x. f x \<noteq> None) (x # xs)"
    then obtain y where y: "f x = Some y" and "list_all (\<lambda>x. f x \<noteq> None) xs" by auto
    with Cons.IH obtain ys where "map f xs = map Some ys" by auto
    with y have "map f (x # xs) = map Some (y # ys)" by simp
    then show "\<exists>ys. map f (x # xs) = map Some ys" ..
  qed
qed

lemma length_github_urls: "length (github_urls url pages) = length pages"
  by (induction pages arbitrary: url) simp_all

lemma length_bitbucket_urls: "length (bitbucket_urls url pages) = length pages"
  by (induction pages arbitrary: url) simp_all

lemma array_pages_items:
  "map json_body pages = map (\<lambda>items. Some (JArr items)) arrays \<Longrightarrow>
   map github_page_items pages = map Some arrays"
proof (induction pages arbitrary: arrays)
  case Nil
  then show ?case by simp
next
  case (Cons p ps)
  then obtain a as where "arrays = a # as" by (cases arrays) auto
  with Cons show ?case by (auto simp: github_page_items_def resp_json_def)
qed

lemma object_pages_objects:
  "map json_body pages = map (\<lambda>kvs. Some (JObj kvs)) objs \<Longrightarrow>
   map bitbucket_page_object pages = map Some (map JObj objs)"
proof (induction pages arbitrary: objs)
  case Nil
  then show ?case by simp
next
  case (Cons p ps)
  then obtain a as where "objs = a # as" by (cases objs) auto
  with Cons show ?case by (auto simp: bitbucket_page_object_def)
qed

lemma github_counting:
  "http env = counting_http n \<Longrightarrow> length (http_log w) < n \<Longrightarrow> truthy url \<Longrightarrow>
   \<exists>r w'. github_paginate_loop env s url acc w = Some (Inr r, w') \<and> length (http_log w') = n"
proof (induction "n - length (http_log w)" arbitrary: w url acc)
  case 0
  then show ?case by simp
next
  case (Suc d)
  let ?w' = "w\<lparr>http_log := http_log w @ [GET url]\<rparr>"
  show ?case
  proof (cases "Suc (length (http_log w)) < n")
    case True
    have step: "github_paginate_loop env s url acc w =
        github_paginate_loop env s (JStr ''more'') (acc @ [JStr ''next'']) ?w'"
      using Suc.prems True
      by (subst github_paginate_loop.simps)
         (simp add: session_get_def counting_http_def json_page_def resp_json_def github_next_def)
    have "\<exists>r w'. github_paginate_loop env s (JStr ''more'') (acc @ [JStr ''next'']) ?w'
             = Some (Inr r, w') \<and> length (http_log w') = n"
      using Suc.hyps(2) Suc.prems(1) True by (intro Suc.hyps(1)) simp_all
    with step show ?thesis by simp
  next
    case False
    with Suc.prems have n: "n = Suc (length (http_log w))" by simp
    have "github_paginate_loop env s url acc w =
        github_paginate_loop env s JNull acc ?w'"
      using Suc.prems False
      by (subst github_paginate_loop.simps)
         (simp add: session_get_def counting_http_def json_page_def resp_json_def github_next_def)
    also have "\<dots> = Some (Inr acc, ?w')"
      by (subst github_paginate_loop.simps) simp
    finally show ?thesis using n by simp
  qed
qed

lemma bitbucket_counting:
  "http env = counting_http n \<Longrightarrow> length (http_log w) < n \<Longrightarrow> truthy url \<Longrightarrow>
   \<exists>r w'. bitbucket_paginate_loop env s url acc w = Some (Inr r, w') \<and> length (http_log w') = n"
proof (induction "n - length (http_log w)" arbitrary: w url acc)
  case 0
  then show ?case by simp
next
  case (Suc d)
  let ?w' = "w\<lparr>http_log := http_log w @ [GET url]\<rparr>"
  show ?case
  proof (cases "Suc (length (http_log w)) < n")
    case True
    have step: "bitbucket_paginate_loop env s url acc w =
        bitbucket_paginate_loop env s (JStr ''more'') (acc @ [JObj [(''next'', JStr ''more'')]]) ?w'"
      using Suc.prems True
      by (subst bitbucket_paginate_loop.simps)
         (simp add: session_get_def counting_http_def json_page_def resp_json_def)
    have "\<exists>r w'. bitbucket_paginate_loop env s (JStr ''more'')
              (acc @ [JObj [(''next'', JStr ''more'')]]) ?w'
             = Some (Inr r, w') \<and> length (http_log w') = n"
      using Suc.hyps(2) Suc.prems(1) True by (intro Suc.hyps(1)) simp_all
    with step show ?thesis by simp
  next
    case False
    with Suc.prems have n: "n = Suc (length (http_log w))" by simp
    have "bitbucket_paginate_loop env s url acc w =
        bitbucket_paginate_loop env s JNull (acc @ [JObj []]) ?w'"
      using Suc.prems False
      by (subst bitbucket_paginate_loop.simps)
         (simp add: session_get_def counting_http_def json_page_def resp_json_def)
    also have "\<dots> = Some (Inr (acc @ [JObj []]), ?w')"
      by (subst bitbucket_paginate_loop.simps) simp
    finally show ?thesis using n by simp
  qed
qed

lemma github_paginate_fetches:
  assumes "github_pages env s (http_log w) (JStr url) pages"
    and "list_all (\<lambda>p. github_page_items p \<noteq> None) pages"
  shows "\<exists>r w'. github_paginate env s url w = Some (Inr r, w')
           \<and> http_log w' = http_log w @ map GET (github_urls (JStr url) pages)
           \<and> length (http_log w') = length (http_log w) + length pages"
proof -
  from assms(2) obtain itemss where "map github_page_items pages = map Some itemss"
    using map_Some_conv_list_all[of github_page_items pages] by blast
  from github_loop_chain[OF assms(1) this, of "[]"] show ?thesis
    by (simp add: github_paginate_def length_github_urls)
qed

lemma bitbucket_paginate_fetches:
  assumes "bitbucket_pages env s (http_log w) (JStr url) pages"
    and "list_all (\<lambda>p. bitbucket_page_object p \<noteq> None) pages"
  shows "\<exists>r w'. bitbucket_paginate env s url w = Some (Inr r, w')
           \<and> http_log w' = http_log w @ map GET (bitbucket_urls (JStr url) pages)
           \<and> length (http_log w') = length (http_log w) + length pages"
proof -
  from assms(2) obtain objs where "map bitbucket_page_object pages = map Some objs"
    using map_Some_conv_list_all[of bitbucket_page_object pages] by blast
  from bitbucket_loop_chain[OF assms(1) this, of "[]"] show ?thesis
    by (simp add: bitbucket_paginate_def length_bitbucket_urls)
qed

lemma github_paginate_returns_iff:
  "(\<exists>r w'. github_paginate env s url w = Some (Inr r, w')) =
   (\<exists>pages. github_pages env s (http_log w) (JStr url) pages
             \<and> list_all (\<lambda>p. github_page_items p \<noteq> None) pages)"
proof
  assume "\<exists>r w'. github_paginate env s url w = Some (Inr r, w')"
  then obtain r w' where "github_paginate_loop env s (JStr url) [] w = Some (Inr r, w')"
    by (auto simp: github_paginate_def)
  from github_loop_returns[OF this] obtain pages itemss where
    "github_pages env s (http_log w) (JStr url) pages"
    "map github_page_items pages = map Some itemss"
    by auto
  then show "\<exists>pages. github_pages env s (http_log w) (JStr url) pages
                 \<and> list_all (\<lambda>p. github_page_items p \<noteq> None) pages"
    using map_Some_conv_list_all[of github_page_items pages] by blast
next
  assume "\<exists>pages. github_pages env s (http_log w) (JStr url) pages
                 \<and> list_all (\<lambda>p. github_page_items p \<noteq> None) pages"
  with github_paginate_fetches[of env s w url]
  show "\<exists>r w'. github_paginate env s url w = Some (Inr r, w')" by blast
qed

lemma bitbucket_paginate_returns_iff:
  "(\<exists>r w'. bitbucket_paginate env s url w = Some (Inr r, w')) =
   (\<exists>pages. bitbucket_pages env s (http_log w) (JStr url) pages
             \<and> list_all (\<lambda>p. bitbucket_page_object p \<noteq> None) pages)"
proof
  assume "\<exists>r w'. bitbucket_paginate env s url w = Some (Inr r, w')"
  then obtain r w' where "bitbucket_paginate_loop env s (JStr url) [] w = Some (Inr r, w')"
    by (auto simp: bitbucket_paginate_def)
  from bitbucket_loop_returns[OF this] obtain pages objs where
    "bitbucket_pages env s (http_log w) (JStr url) pages"
    "map bitbucket_page_object pages = map Some objs"
    by auto
  then show "\<exists>pages. bitbucket_pages env s (http_log w) (JStr url) pages
                 \<and> list_all (\<lambda>p. bitbucket_page_object p \<noteq> None) pages"
    using map_Some_conv_list_all[of bitbucket_page_object pages] by blast
next
  assume "\<exists>pages. bitbucket_pages env s (http_log w) (JStr url) pages
                 \<and> list_all (\<lambda>p. bitbucket_page_object p \<noteq> None) pages"
  with bitbucket_paginate_fetches[of env s w url]
  show "\<exists>r w'. bitbucket_paginate env s url w = Some (Inr r, w')" by blast
qed

text \<open>
  Claim C6. When the server answers with a chain of pages linked through the \<^verbatim>\<open>next\<close>
  relation of the \<^verbatim>\<open>Link\<close> header (the header of each page gives, under the relation
  \<^verbatim>\<open>next\<close> and whatever other relations it lists, the URL of the page after it, and the
  last page has no such relation), each holding a JSON array, \<^verbatim>\<open>github_paginate\<close>
  returns the concatenation of the arrays, having requested each page once; for three
  pages of 100, 100 and 1 items the result has 201 items.
\<close>

theorem github_paginate_concatenates_pages:
  assumes "github_pages env s (http_log w) (JStr url) pages"
    and "map json_body pages = map (\<lambda>items. Some (JArr items)) arrays"
  shows "github_paginate env s url w =
           Some (Inr (concat arrays),
                 w\<lparr>http_log := http_log w @ map GET (github_urls (JStr url) pages)\<rparr>)
         \<and> (map length arrays = [100, 100, 1] \<longrightarrow>
              (\<exists>r w'. github_paginate env s url w = Some (Inr r, w') \<and> length r = 201))"
proof -
  have items: "map github_page_items pages = map Some arrays"
    using assms(2) by (rule array_pages_items)
  have res: "github_paginate env s url w =
           Some (Inr (concat arrays),
                 w\<lparr>http_log := http_log w @ map GET (github_urls (JStr url) pages)\<rparr>)"
    unfolding github_paginate_def
    using github_loop_chain[OF assms(1) items, of "[]"] by simp
  have "length (concat arrays) = 201" if "map length arrays = [100, 100, 1]"
    using that by (simp add: length_concat)
  with res show ?thesis by simp
qed

theorem github_paginate_concatenates_pages_witness:
  "github_paginate (sample_env (tokens_of []) (routes three_pages)) github_session
     ''https://api.github.com/user/repos?per_page=100'' w0 =
   Some (Inr (replicate 100 (JObj [(''id'', JNum 1)]) @ replicate 100 (JObj [(''id'', JNum 2)])
              @ [JObj [(''id'', JNum 3)]]),
         w0\<lparr>http_log := [GET (JStr ''https://api.github.com/user/repos?per_page=100''),
                          GET (JStr ''https://api.github.com/page2''),
                          GET (JStr ''https://api.github.com/page3'')]\<rparr>)
   \<and> (\<exists>r w'. github_paginate (sample_env (tokens_of []) (routes three_pages)) github_session
                ''https://api.github.com/user/repos?per_page=100'' w0 = Some (Inr r, w')
             \<and> length r = 201)"
proof -
  let ?env = "sample_env (tokens_of []) (routes three_pages)"
  let ?pages = "map snd three_pages"
  let ?arrays = "[replicate 100 (JObj [(''id'', JNum 1)]), replicate 100 (JObj [(''id'', JNum 2)]),
                 [JObj [(''id'', JNum 3)]]]"
  have chain: "github_pages ?env github_session (http_log w0)
                 (JStr ''https://api.github.com/user/repos?per_page=100'') ?pages"
    by (simp add: sample_env_def routes_def three_pages_def link_header_def next_link_def
          link_url_def w0_def)
  have bodies: "map json_body ?pages = map (\<lambda>items. Some (JArr items)) ?arrays"
    by (simp add: three_pages_def)
  show ?thesis
    using github_paginate_concatenates_pages[OF chain bodies]
    by (simp add: three_pages_def link_header_def next_link_def link_url_def w0_def)
qed

text \<open>
  Claim C7. When the server answers with a chain of pages linked through the \<^verbatim>\<open>next\<close>
  member of the JSON body, each body a JSON object, \<^verbatim>\<open>bitbucket_paginate\<close> returns one
  element per fetched page, the page object itself; two linked pages give the two page
  objects.
\<close>

theorem bitbucket_paginate_returns_page_objects:
  assumes "bitbucket_pages env s (http_log w) (JStr url) pages"
    and "map json_body pages = map (\<lambda>kvs. Some (JObj kvs)) objs"
  shows "bitbucket_paginate env s url w =
           Some (Inr (map JObj objs),
                 w\<lparr>http_log := http_log w @ map GET (bitbucket_urls (JStr url) pages)\<rparr>)
         \<and> length (map JObj objs) = length pages
         \<and> (length pages = 2 \<longrightarrow>
              (\<exists>p1 p2 w'. bitbucket_paginate env s url w = Some (Inr [p1, p2], w')
                 \<and> map json_body pages = [Some p1, Some p2]))"
proof -
  have objs: "map bitbucket_page_object pages = map Some (map JObj objs)"
    using assms(2) by (rule object_pages_objects)
  have res: "bitbucket_paginate env s url w =
           Some (Inr (map JObj objs),
                 w\<lparr>http_log := http_log w @ map GET (bitbucket_urls (JStr url) pages)\<rparr>)"
    unfolding bitbucket_paginate_def
    using bitbucket_loop_chain[OF assms(1) objs, of "[]"] by simp
  have len: "length objs = length pages"
    using assms(2) by (metis length_map)
  have two: "\<exists>p1 p2 w'. bitbucket_paginate env s url w = Some (Inr [p1, p2], w')
                 \<and> map json_body pages = [Some p1, Some p2]" if "length pages = 2"
  proof -
    from that len have "length objs = 2" by simp
    then obtain a b where ab: "objs = [a, b]"
      by (cases objs; cases "tl objs") auto
    with assms(2) have "map json_body pages = [Some (JObj a), Some (JObj b)]" by simp
    with res ab show ?thesis by simp
  qed
  from res len two show ?thesis by simp
qed

theorem bitbucket_paginate_returns_page_objects_witness:
  "bitbucket_paginate (sample_env (tokens_of []) (routes two_pages)) bitbucket_session
     ''https://bitbucket.org/api/2.0/repositories/alice-bb'' w0 =
   Some (Inr [JObj [(''values'', JArr [JObj [(''name'', JStr ''one'')]]),
                    (''next'', JStr ''https://bitbucket.org/api/2.0/repositories/alice-bb?page=2'')],
              JObj [(''values'', JArr [JObj [(''name'', JStr ''two'')]])]],
         w0\<lparr>http_log := [GET (JStr ''https://bitbucket.org/api/2.0/repositories/alice-bb''),
                          GET (JStr ''https://bitbucket.org/api/2.0/repositories/alice-bb?page=2'')]\<rparr>)
   \<and> (\<exists>p1 p2 w'. bitbucket_paginate (sample_env (tokens_of []) (routes two_pages))
          bitbucket_session ''https://bitbucket.org/api/2.0/repositories/alice-bb'' w0
            = Some (Inr [p1, p2], w')
          \<and> map json_body (map snd two_pages) = [Some p1, Some p2])"
proof -
  let ?env = "sample_env (tokens_of []) (routes two_pages)"
  let ?pages = "map snd two_pages"
  let ?objs = "[[(''values'', JArr [JObj [(''name'', JStr ''one'')]]),
                 (''next'', JStr ''https://bitbucket.org/api/2.0/repositories/alice-bb?page=2'')],
                [(''values'', JArr [JObj [(''name'', JStr ''two'')]])]]"
  have chain: "bitbucket_pages ?env bitbucket_session (http_log w0)
                 (JStr ''https://bitbucket.org/api/2.0/repositories/alice-bb'') ?pages"
    by (simp add: sample_env_def routes_def two_pages_def json_page_def bitbucket_next_def
          resp_json_def w0_def)
  have bodies: "map json_body ?pages = map (\<lambda>kvs. Some (JObj kvs)) ?objs"
    by (simp add: two_pages_def json_page_def)
  show ?thesis
    using bitbucket_paginate_returns_page_objects[OF chain bodies]
    by (simp add: two_pages_def json_page_def bitbucket_next_def resp_json_def w0_def)
qed

lemma github_endless:
  assumes "github_paginate_loop env s url acc w = Some y"
  shows "http env = endless_http \<longrightarrow> \<not> truthy url"
  using assms
proof (induct rule: github_paginate_loop.raw_induct[rotated 1, consumes 1, case_names step])
  case (step loop env s url acc w y)
  show ?case
  proof (intro impI notI)
    assume h: "http env = endless_http" and t: "truthy url"
    from step(2) h t have
      "loop env s (JStr ''more'') (acc @ [JStr ''next''])
         (w\<lparr>http_log := http_log w @ [GET url]\<rparr>) = Some y"
      by (simp add: session_get_def endless_http_def json_page_def resp_json_def github_next_def)
    from step(1)[OF this] h show False by simp
  qed
qed

lemma bitbucket_endless:
  assumes "bitbucket_paginate_loop env s url acc w = Some y"
  shows "http env = endless_http \<longrightarrow> \<not> truthy url"
  using assms
proof (induct rule: bitbucket_paginate_loop.raw_induct[rotated 1, consumes 1, case_names step])
  case (step loop env s url acc w y)
  show ?case
  proof (intro impI notI)
    assume h: "http env = endless_http" and t: "truthy url"
    from step(2) h t have
      "loop env s (JStr ''more'') (acc @ [JObj [(''next'', JStr ''more'')]])
         (w\<lparr>http_log := http_log w @ [GET url]\<rparr>) = Some y"
      by (simp add: session_get_def endless_http_def json_page_def resp_json_def)
    from step(1)[OF this] h show False by simp
  qed
qed

lemma github_paginate_endless:
  "github_paginate (sample_env toks endless_http) s ''more'' w = None"
proof (cases "github_paginate (sample_env toks endless_http) s ''more'' w")
  case (Some y)
  have "http (sample_env toks endless_http) = endless_http" by (simp add: sample_env_def)
  with Some show ?thesis
    using github_endless[of "sample_env toks endless_http" s "JStr ''more''" "[]" w y]
    by (simp add: github_paginate_def)
qed simp

lemma bitbucket_paginate_endless:
  "bitbucket_paginate (sample_env toks endless_http) s ''more'' w = None"
proof (cases "bitbucket_paginate (sample_env toks endless_http) s ''more'' w")
  case (Some y)
  have "http (sample_env toks endless_http) = endless_http" by (simp add: sample_env_def)
  with Some show ?thesis
    using bitbucket_endless[of "sample_env toks endless_http" s "JStr ''more''" "[]" w y]
    by (simp add: bitbucket_paginate_def)
qed simp

lemma github_loop_fails:
  "github_fails env s (http_log w) url pages e \<Longrightarrow>
   \<exists>w'. github_paginate_loop env s url acc w = Some (Inl e, w')
        \<and> length (http_log w') = length (http_log w) + length pages + 1
        \<and> db w' = db w"
proof (induction pages arbitrary: url acc w)
  case Nil
  then have url: "truthy url" and err: "github_fetch_error env s (http_log w) url = Some e"
    by simp_all
  from err have "github_paginate_loop env s url acc w
      = Some (Inl e, w\<lparr>http_log := http_log w @ [GET url]\<rparr>)"
    by (subst github_paginate_loop.simps)
       (auto simp: url github_fetch_error_def session_get_def resp_json_def
             split: sum.splits option.splits)
  then show ?case by simp
next
  case (Cons p ps)
  from Cons.prems have url: "truthy url" and
    fetch: "http env (http_log w) s (GET url) = Inr p" and
    ok: "github_page_items p \<noteq> None" and
    rest: "github_fails env s (http_log w @ [GET url]) (next_link p) ps e"
    by simp_all
  from ok obtain j items where j: "resp_json p = Inr j" "py_iter j = Inr items"
    by (auto simp: github_page_items_def split: sum.splits)
  let ?w' = "w\<lparr>http_log := http_log w @ [GET url]\<rparr>"
  have step: "github_paginate_loop env s url acc w =
          github_paginate_loop env s (next_link p) (acc @ items) ?w'"
    by (subst github_paginate_loop.simps)
       (simp add: url fetch j session_get_def github_next_is_next_link)
  from rest have "github_fails env s (http_log ?w') (next_link p) ps e" by simp
  from Cons.IH[OF this, of "acc @ items"] step show ?case by auto
qed

lemma github_loop_raises:
  assumes "github_paginate_loop env s url acc w = Some y"
  shows "\<forall>e. fst y = Inl e \<longrightarrow> (\<exists>pages. github_fails env s (http_log w) url pages e)"
  using assms
proof (induct rule: github_paginate_loop.raw_induct[rotated 1, consumes 1, case_names step])
  case (step loop env s url acc w y)
  show ?case
  proof (intro allI impI)
    fix e assume e: "fst y = Inl e"
    from step(2) e have url: "truthy url" by (auto split: if_splits)
    show "\<exists>pages. github_fails env s (http_log w) url pages e"
    proof (cases "github_fetch_error env s (http_log w) url")
      case (Some e')
      with step(2) url e have "e' = e"
        by (auto simp: github_fetch_error_def session_get_def resp_json_def
              split: sum.splits option.splits)
      with Some url have "github_fails env s (http_log w) url [] e" by simp
      then show ?thesis ..
    next
      case None
      then obtain p j items where
        fetch: "http env (http_log w) s (GET url) = Inr p" and
        j: "resp_json p = Inr j" and it: "py_iter j = Inr items"
        by (auto simp: github_fetch_error_def resp_json_def split: sum.splits option.splits)
      with step(2) url have
        rec: "loop env s (next_link p) (acc @ items) (w\<lparr>http_log := http_log w @ [GET url]\<rparr>) = Some y"
        by (simp add: session_get_def github_next_is_next_link)
      from step(1)[OF rec] e obtain pages where
        "github_fails env s (http_log w @ [GET url]) (next_link p) pages e"
        by auto
      with url fetch j it have "github_fails env s (http_log w) url (p # pages) e"
        by (simp add: github_page_items_def)
      then show ?thesis ..
    qed
  qed
qed

lemma bitbucket_loop_fails:
  "bitbucket_fails env s (http_log w) url pages e \<Longrightarrow>
   \<exists>w'. bitbucket_paginate_loop env s url acc w = Some (Inl e, w')
        \<and> length (http_log w') = length (http_log w) + length pages + 1
        \<and> db w' = db w"
proof (induction pages arbitrary: url acc w)
  case Nil
  then have url: "truthy url" and err: "bitbucket_fetch_error env s (http_log w) url = Some e"
    by simp_all
  from err have "bitbucket_paginate_loop env s url acc w
      = Some (Inl e, w\<lparr>http_log := http_log w @ [GET url]\<rparr>)"
    by (subst bitbucket_paginate_loop.simps)
       (auto simp: url bitbucket_fetch_error_def session_get_def resp_json_def
             split: sum.splits option.splits json.splits)
  then show ?case by simp
next
  case (Cons p ps)
  from Cons.prems have url: "truthy url" and
    fetch: "http env (http_log w) s (GET url) = Inr p" and
    ok: "bitbucket_page_object p \<noteq> None" and
    rest: "bitbucket_fails env s (http_log w @ [GET url]) (bitbucket_next p) ps e"
    by simp_all
  from ok obtain kvs where kvs: "json_body p = Some (JObj kvs)"
    by (auto simp: bitbucket_page_object_def split: option.splits json.splits)
  let ?w' = "w\<lparr>http_log := http_log w @ [GET url]\<rparr>"
  have step: "bitbucket_paginate_loop env s url acc w =
          bitbucket_paginate_loop env s (bitbucket_next p) (acc @ [JObj kvs]) ?w'"
    by (subst bitbucket_paginate_loop.simps)
       (simp add: url fetch kvs session_get_def resp_json_def bitbucket_next_def
             split: option.splits)
  from rest have "bitbucket_fails env s (http_log ?w') (bitbucket_next p) ps e" by simp
  from Cons.IH[OF this, of "acc @ [JObj kvs]"] step show ?case by auto
qed

lemma bitbucket_loop_raises:
  assumes "bitbucket_paginate_loop env s url acc w = Some y"
  shows "\<forall>e. fst y = Inl e \<longrightarrow> (\<exists>pages. bitbucket_fails env s (http_log w) url pages e)"
  using assms
proof (induct rule: bitbucket_paginate_loop.raw_induct[rotated 1, consumes 1, case_names step])
  case (step loop env s url acc w y)
  show ?case
  proof (intro allI impI)
    fix e assume e: "fst y = Inl e"
    from step(2) e have url: "truthy url" by (auto split: if_splits)
    show "\<exists>pages. bitbucket_fails env s (http_log w) url pages e"
    proof (cases "bitbucket_fetch_error env s (http_log w) url")
      case (Some e')
      with step(2) url e have "e' = e"
        by (auto simp: bitbucket_fetch_error_def session_get_def resp_json_def
              split: sum.splits option.splits json.splits)
      with Some url have "bitbucket_fails env s (http_log w) url [] e" by simp
      then show ?thesis ..
    next
      case None
      then obtain p kvs where
        fetch: "http env (http_log w) s (GET url) = Inr p" and
        kvs: "json_body p = Some (JObj kvs)"
        by (auto simp: bitbucket_fetch_error_def split: sum.splits option.splits json.splits)
      with step(2) url have
        rec: "loop env s (bitbucket_next p) (acc @ [JObj kvs])
                (w\<lparr>http_log := http_log w @ [GET url]\<rparr>) = Some y"
        by (auto simp: session_get_def resp_json_def bitbucket_next_def split: option.splits)
      from step(1)[OF rec] e obtain pages where
        "bitbucket_fails env s (http_log w @ [GET url]) (bitbucket_next p) pages e"
        by auto
      with url fetch kvs have "bitbucket_fails env s (http_log w) url (p # pages) e"
        by (simp add: bitbucket_page_object_def)
      then show ?thesis ..
    qed
  qed
qed

lemma github_paginate_raises_iff:
  "(\<exists>w'. github_paginate env s url w = Some (Inl e, w')) =
   (\<exists>pages. github_fails env s (http_log w) (JStr url) pages e)"
proof
  assume "\<exists>w'. github_paginate env s url w = Some (Inl e, w')"
  then obtain w' where "github_paginate_loop env s (JStr url) [] w = Some (Inl e, w')"
    by (auto simp: github_paginate_def)
  from github_loop_raises[OF this] show "\<exists>pages. github_fails env s (http_log w) (JStr url) pages e"
    by simp
next
  assume "\<exists>pages. github_fails env s (http_log w) (JStr url) pages e"
  then obtain pages where "github_fails env s (http_log w) (JStr url) pages e" ..
  from github_loop_fails[OF this, of "[]"]
  show "\<exists>w'. github_paginate env s url w = Some (Inl e, w')"
    by (auto simp: github_paginate_def)
qed

lemma bitbucket_paginate_raises_iff:
  "(\<exists>w'. bitbucket_paginate env s url w = Some (Inl e, w')) =
   (\<exists>pages. bitbucket_fails env s (http_log w) (JStr url) pages e)"
proof
  assume "\<exists>w'. bitbucket_paginate env s url w = Some (Inl e, w')"
  then obtain w' where "bitbucket_paginate_loop env s (JStr url) [] w = Some (Inl e, w')"
    by (auto simp: bitbucket_paginate_def)
  from bitbucket_loop_raises[OF this]
  show "\<exists>pages. bitbucket_fails env s (http_log w) (JStr url) pages e"
    by simp
next
  assume "\<exists>pages. bitbucket_fails env s (http_log w) (JStr url) pages e"
  then obtain pages where "bitbucket_fails env s (http_log w) (JStr url) pages e" ..
  from bitbucket_loop_fails[OF this, of "[]"]
  show "\<exists>w'. bitbucket_paginate env s url w = Some (Inl e, w')"
    by (auto simp: bitbucket_paginate_def)
qed

lemma outcome_cases:
  "(x = None) = (\<not> (\<exists>r w'. x = Some (Inr r, w')) \<and> \<not> (\<exists>e w'. x = Some (Inl e, w')))"
  for x :: "(('e + 'a) \<times> 'w) option"
proof (cases x)
  case None
  then show ?thesis by simp
next
  case (Some y)
  then show ?thesis by (cases y; cases "fst y") auto
qed

lemma github_paginate_never_iff:
  "(github_paginate env s url w = None) =
   (\<not> (\<exists>pages. github_pages env s (http_log w) (JStr url) pages
                 \<and> list_all (\<lambda>p. github_page_items p \<noteq> None) pages)
    \<and> \<not> (\<exists>pages e. github_fails env s (http_log w) (JStr url) pages e))"
  using outcome_cases[of "github_paginate env s url w"]
    github_paginate_returns_iff[of env s url w] github_paginate_raises_iff[of env s url w]
  by auto

lemma bitbucket_paginate_never_iff:
  "(bitbucket_paginate env s url w = None) =
   (\<not> (\<exists>pages. bitbucket_pages env s (http_log w) (JStr url) pages
                 \<and> list_all (\<lambda>p. bitbucket_page_object p \<noteq> None) pages)
    \<and> \<not> (\<exists>pages e. bitbucket_fails env s (http_log w) (JStr url) pages e))"
  using outcome_cases[of "bitbucket_paginate env s url w"]
    bitbucket_paginate_returns_iff[of env s url w] bitbucket_paginate_raises_iff[of env s url w]
  by auto

text \<open>
  Claim C9 (amended). Both paginators loop while a next URL is produced, one request per
  iteration, with no cap on the number of pages. Each returns its result exactly when
  the chain of pages it follows from the start URL reaches a page that yields no further
  URL, every page on the way having been fetched and read; it has then issued one request
  per page, and for every \<open>n > 0\<close> there is a server on which that is exactly \<open>n\<close>
  requests. Each stops by raising \<open>e\<close> exactly when, after some pages that were read and
  link on, a request or the reading of its answer raises \<open>e\<close>. In every other case, as on
  a server whose every page links on, it never returns.
\<close>

theorem paginators_return_iff_chain_ends:
  "((\<exists>r w'. github_paginate env s url w = Some (Inr r, w')) =
      (\<exists>pages. github_pages env s (http_log w) (JStr url) pages
                \<and> list_all (\<lambda>p. github_page_items p \<noteq> None) pages))
   \<and> (\<forall>pages. github_pages env s (http_log w) (JStr url) pages
                \<and> list_all (\<lambda>p. github_page_items p \<noteq> None) pages \<longrightarrow>
          (\<exists>r w'. github_paginate env s url w = Some (Inr r, w')
             \<and> http_log w' = http_log w @ map GET (github_urls (JStr url) pages)
             \<and> length (http_log w') = length (http_log w) + length pages))
   \<and> ((\<exists>r w'. bitbucket_paginate env s url w = Some (Inr r, w')) =
      (\<exists>pages. bitbucket_pages env s (http_log w) (JStr url) pages
                \<and> list_all (\<lambda>p. bitbucket_page_object p \<noteq> None) pages))
   \<and> (\<forall>pages. bitbucket_pages env s (http_log w) (JStr url) pages
                \<and> list_all (\<lambda>p. bitbucket_page_object p \<noteq> None) pages \<longrightarrow>
          (\<exists>r w'. bitbucket_paginate env s url w = Some (Inr r, w')
             \<and> http_log w' = http_log w @ map GET (bitbucket_urls (JStr url) pages)
             \<and> length (http_log w') = length (http_log w) + length pages))
   \<and> (\<forall>n toks. 0 < n \<longrightarrow>
          (\<exists>r w'. github_paginate (sample_env toks (counting_http n)) s ''more'' w0
                     = Some (Inr r, w')
             \<and> length (http_log w') = n))
   \<and> (\<forall>n toks. 0 < n \<longrightarrow>
          (\<exists>r w'. bitbucket_paginate (sample_env toks (counting_http n)) s ''more'' w0
                     = Some (Inr r, w')
             \<and> length (http_log w') = n))
   \<and> github_paginate (sample_env toks endless_http) s ''more'' w0 = None
   \<and> bitbucket_paginate (sample_env toks endless_http) s ''more'' w0 = None
   \<and> (\<forall>e. (\<exists>w'. github_paginate env s url w = Some (Inl e, w')) =
            (\<exists>pages. github_fails env s (http_log w) (JStr url) pages e))
   \<and> (\<forall>pages e. github_fails env s (http_log w) (JStr url) pages e \<longrightarrow>
          (\<exists>w'. github_paginate env s url w = Some (Inl e, w')
             \<and> length (http_log w') = length (http_log w) + length pages + 1))
   \<and> (\<forall>e. (\<exists>w'. bitbucket_paginate env s url w = Some (Inl e, w')) =
            (\<exists>pages. bitbucket_fails env s (http_log w) (JStr url) pages e))
   \<and> (\<forall>pages e. bitbucket_fails env s (http_log w) (JStr url) pages e \<longrightarrow>
          (\<exists>w'. bitbucket_paginate env s url w = Some (Inl e, w')
             \<and> length (http_log w') = length (http_log w) + length pages + 1))
   \<and> ((github_paginate env s url w = None) =
        (\<not> (\<exists>pages. github_pages env s (http_log w) (JStr url) pages
                      \<and> list_all (\<lambda>p. github_page_items p \<noteq> None) pages)
         \<and> \<not> (\<exists>pages e. github_fails env s (http_log w) (JStr url) pages e)))
   \<and> ((bitbucket_paginate env s url w = None) =
        (\<not> (\<exists>pages. bitbucket_pages env s (http_log w) (JStr url) pages
                      \<and> list_all (\<lambda>p. bitbucket_page_object p \<noteq> None) pages)
         \<and> \<not> (\<exists>pages e. bitbucket_fails env s (http_log w) (JStr url) pages e)))"
proof -
  have c1: "(\<exists>r w'. github_paginate env s url w = Some (Inr r, w')) =
      (\<exists>pages. github_pages env s (http_log w) (JStr url) pages
                \<and> list_all (\<lambda>p. github_page_items p \<noteq> None) pages)"
    by (rule github_paginate_returns_iff)
  have c2: "\<forall>pages. github_pages env s (http_log w) (JStr url) pages
                \<and> list_all (\<lambda>p. github_page_items p \<noteq> None) pages \<longrightarrow>
          (\<exists>r w'. github_paginate env s url w = Some (Inr r, w')
             \<and> http_log w' = http_log w @ map GET (github_urls (JStr url) pages)
             \<and> length (http_log w') = length (http_log w) + length pages)"
    using github_paginate_fetches[of env s w url] by blast
  have c3: "(\<exists>r w'. bitbucket_paginate env s url w = Some (Inr r, w')) =
      (\<exists>pages. bitbucket_pages env s (http_log w) (JStr url) pages
                \<and> list_all (\<lambda>p. bitbucket_page_object p \<noteq> None) pages)"
    by (rule bitbucket_paginate_returns_iff)
  have c4: "\<forall>pages. bitbucket_pages env s (http_log w) (JStr url) pages
                \<and> list_all (\<lambda>p. bitbucket_page_object p \<noteq> None) pages \<longrightarrow>
          (\<exists>r w'. bitbucket_paginate env s url w = Some (Inr r, w')
             \<and> http_log w' = http_log w @ map GET (bitbucket_urls (JStr url) pages)
             \<and> length (http_log w') = length (http_log w) + length pages)"
    using bitbucket_paginate_fetches[of env s w url] by blast
  have c5: "\<forall>n toks. 0 < n \<longrightarrow>
          (\<exists>r w'. github_paginate (sample_env toks (counting_http n)) s ''more'' w0
                     = Some (Inr r, w')
             \<and> length (http_log w') = n)"
    unfolding github_paginate_def
    by (intro allI impI github_counting) (simp_all add: sample_env_def w0_def)
  have c6: "\<forall>n toks. 0 < n \<longrightarrow>
          (\<exists>r w'. bitbucket_paginate (sample_env toks (counting_http n)) s ''more'' w0
                     = Some (Inr r, w')
             \<and> length (http_log w') = n)"
    unfolding bitbucket_paginate_def
    by (intro allI impI bitbucket_counting) (simp_all add: sample_env_def w0_def)
  have c7: "github_paginate (sample_env toks endless_http) s ''more'' w0 = None"
    by (rule github_paginate_endless)
  have c8: "bitbucket_paginate (sample_env toks endless_http) s ''more'' w0 = None"
    by (rule bitbucket_paginate_endless)
  have c9: "\<forall>e. (\<exists>w'. github_paginate env s url w = Some (Inl e, w')) =
            (\<exists>pages. github_fails env s (http_log w) (JStr url) pages e)"
    by (intro allI github_paginate_raises_iff)
  have c10: "\<forall>pages e. github_fails env s (http_log w) (JStr url) pages e \<longrightarrow>
          (\<exists>w'. github_paginate env s url w = Some (Inl e, w')
             \<and> length (http_log w') = length (http_log w) + length pages + 1)"
    unfolding github_paginate_def using github_loop_fails[of env s w "JStr url" _ _ "[]"]
    by blast
  have c11: "\<forall>e. (\<exists>w'. bitbucket_paginate env s url w = Some (Inl e, w')) =
            (\<exists>pages. bitbucket_fails env s (http_log w) (JStr url) pages e)"
    by (intro allI bitbucket_paginate_raises_iff)
  have c12: "\<forall>pages e. bitbucket_fails env s (http_log w) (JStr url) pages e \<longrightarrow>
          (\<exists>w'. bitbucket_paginate env s url w = Some (Inl e, w')
             \<and> length (http_log w') = length (http_log w) + length pages + 1)"
    unfolding bitbucket_paginate_def using bitbucket_loop_fails[of env s w "JStr url" _ _ "[]"]
    by blast
  have c13: "(github_paginate env s url w = None) =
        (\<not> (\<exists>pages. github_pages env s (http_log w) (JStr url) pages
                      \<and> list_all (\<lambda>p. github_page_items p \<noteq> None) pages)
         \<and> \<not> (\<exists>pages e. github_fails env s (http_log w) (JStr url) pages e))"
    by (rule github_paginate_never_iff)
  have c14: "(bitbucket_paginate env s url w = None) =
        (\<not> (\<exists>pages. bitbucket_pages env s (http_log w) (JStr url) pages
                      \<and> list_all (\<lambda>p. bitbucket_page_object p \<noteq> None) pages)
         \<and> \<not> (\<exists>pages e. bitbucket_fails env s (http_log w) (JStr url) pages e))"
    by (rule bitbucket_paginate_never_iff)
  show ?thesis
    by (rule conjI c1 c2 c3 c4 c5 c6 c7 c8 c9 c10 c11 c12 c13 c14)+
qed

theorem paginators_return_iff_chain_ends_witness:
  "(\<exists>r w'. github_paginate (sample_env (tokens_of []) (routes three_pages)) github_session
              ''https://api.github.com/user/repos?per_page=100'' w0 = Some (Inr r, w')
           \<and> length (http_log w') = 3)
   \<and> (\<exists>r w'. bitbucket_paginate (sample_env (tokens_of []) (routes two_pages))
              bitbucket_session ''https://bitbucket.org/api/2.0/repositories/alice-bb'' w0
                = Some (Inr r, w')
           \<and> length (http_log w') = 2)
   \<and> (\<exists>r w'. github_paginate (sample_env (tokens_of []) (counting_http 7)) github_session
              ''more'' w0 = Some (Inr r, w')
           \<and> length (http_log w') = 7)
   \<and> (\<exists>w'. github_paginate (sample_env (tokens_of []) dropping_http) github_session
              ''more'' w0 = Some (Inl (OtherError ''ConnectionError''), w')
           \<and> length (http_log w') = 2)
   \<and> (\<exists>w'. bitbucket_paginate (sample_env (tokens_of []) dropping_http) bitbucket_session
              ''more'' w0 = Some (Inl (OtherError ''ConnectionError''), w')
           \<and> length (http_log w') = 2)"
proof -
  let ?g = "sample_env (tokens_of []) (routes three_pages)"
  let ?b = "sample_env (tokens_of []) (routes two_pages)"
  let ?d = "sample_env (tokens_of []) dropping_http"
  let ?page = "json_page (JObj [(''next'', JStr ''more'')]) (Some ''more'')"
  have g: "github_pages ?g github_session (http_log w0)
             (JStr ''https://api.github.com/user/repos?per_page=100'') (map snd three_pages)
           \<and> list_all (\<lambda>p. github_page_items p \<noteq> None) (map snd three_pages)"
    by (simp add: sample_env_def routes_def three_pages_def link_header_def next_link_def
          link_url_def github_page_items_def resp_json_def w0_def)
  have b: "bitbucket_pages ?b bitbucket_session (http_log w0)
             (JStr ''https://bitbucket.org/api/2.0/repositories/alice-bb'') (map snd two_pages)
           \<and> list_all (\<lambda>p. bitbucket_page_object p \<noteq> None) (map snd two_pages)"
    by (simp add: sample_env_def routes_def two_pages_def json_page_def bitbucket_next_def
          bitbucket_page_object_def resp_json_def w0_def)
  have n: "0 < (7::nat)" by simp
  have gd: "github_fails ?d github_session (http_log w0) (JStr ''more'') [?page]
              (OtherError ''ConnectionError'')"
    by (simp add: sample_env_def dropping_http_def json_page_def next_link_def link_url_def
          github_page_items_def github_fetch_error_def resp_json_def w0_def)
  have bd: "bitbucket_fails ?d bitbucket_session (http_log w0) (JStr ''more'') [?page]
              (OtherError ''ConnectionError'')"
    by (simp add: sample_env_def dropping_http_def json_page_def bitbucket_next_def
          bitbucket_page_object_def bitbucket_fetch_error_def resp_json_def w0_def)
  note G = paginators_return_iff_chain_ends[of ?g github_session
      "''https://api.github.com/user/repos?per_page=100''" w0]
  note B = paginators_return_iff_chain_ends[of ?b bitbucket_session
      "''https://bitbucket.org/api/2.0/repositories/alice-bb''" w0]
  note D = paginators_return_iff_chain_ends[of ?d github_session "''more''" w0]
  note E = paginators_return_iff_chain_ends[of ?d bitbucket_session "''more''" w0]
  have lg: "length (http_log w0) + length (map snd three_pages) = 3"
    by (simp add: w0_def three_pages_def)
  have lb: "length (http_log w0) + length (map snd two_pages) = 2"
    by (simp add: w0_def two_pages_def)
  have ld: "length (http_log w0) + length [?page] + 1 = 2"
    by (simp add: w0_def)
  from G[THEN conjunct2, THEN conjunct1, rule_format, OF g] lg
  have 1: "\<exists>r w'. github_paginate ?g github_session
              ''https://api.github.com/user/repos?per_page=100'' w0 = Some (Inr r, w')
           \<and> length (http_log w') = 3"
    by metis
  from B[THEN conjunct2, THEN conjunct2, THEN conjunct2, THEN conjunct1, rule_format, OF b] lb
  have 2: "\<exists>r w'. bitbucket_paginate ?b bitbucket_session
              ''https://bitbucket.org/api/2.0/repositories/alice-bb'' w0 = Some (Inr r, w')
           \<and> length (http_log w') = 2"
    by metis
  from G[THEN conjunct2, THEN conjunct2, THEN conjunct2, THEN conjunct2, THEN conjunct1,
         rule_format, OF n]
  have 3: "\<exists>r w'. github_paginate (sample_env (tokens_of []) (counting_http 7)) github_session
              ''more'' w0 = Some (Inr r, w') \<and> length (http_log w') = 7" .
  from D[THEN conjunct2, THEN conjunct2, THEN conjunct2, THEN conjunct2, THEN conjunct2,
         THEN conjunct2, THEN conjunct2, THEN conjunct2, THEN conjunct2, THEN conjunct1,
         rule_format, OF gd] ld
  have 4: "\<exists>w'. github_paginate ?d github_session ''more'' w0
              = Some (Inl (OtherError ''ConnectionError''), w') \<and> length (http_log w') = 2"
    by metis
  from E[THEN conjunct2, THEN conjunct2, THEN conjunct2, THEN conjunct2, THEN conjunct2,
         THEN conjunct2, THEN conjunct2, THEN conjunct2, THEN conjunct2, THEN conjunct2,
         THEN conjunct2, THEN conjunct1, rule_format, OF bd] ld
  have 5: "\<exists>w'. bitbucket_paginate ?d bitbucket_session ''more'' w0
              = Some (Inl (OtherError ''ConnectionError''), w') \<and> length (http_log w') = 2"
    by metis
  from 1 2 3 4 5 show ?thesis by (intro conjI)
qed

text \<open>
  On a server whose first page links on and whose connection then drops, both paginators
  terminate, by raising, although no page they fetched is without a further URL.
\<close>

theorem paginators_return_iff_chain_ends_counterexample:
  "github_paginate (sample_env (tokens_of []) dropping_http) github_session ''more'' w0
     = Some (Inl (OtherError ''ConnectionError''),
             w0\<lparr>http_log := [GET (JStr ''more''), GET (JStr ''more'')]\<rparr>)
   \<and> bitbucket_paginate (sample_env (tokens_of []) dropping_http) bitbucket_session ''more'' w0
     = Some (Inl (OtherError ''ConnectionError''),
             w0\<lparr>http_log := [GET (JStr ''more''), GET (JStr ''more'')]\<rparr>)
   \<and> dropping_http [] github_session (GET (JStr ''more''))
     = Inr (json_page (JObj [(''next'', JStr ''more'')]) (Some ''more''))
   \<and> next_link (json_page (JObj [(''next'', JStr ''more'')]) (Some ''more'')) = JStr ''more''
   \<and> bitbucket_next (json_page (JObj [(''next'', JStr ''more'')]) (Some ''more'')) = JStr ''more''"
proof -
  let ?d = "sample_env (tokens_of []) dropping_http"
  let ?w1 = "\<lparr>http_log = [GET (JStr ''more'')], db = [], printed = [], logged = []\<rparr>
             :: json list world"
  let ?w2 = "\<lparr>http_log = [GET (JStr ''more''), GET (JStr ''more'')], db = [], printed = [],
              logged = []\<rparr> :: json list world"
  have g2: "github_paginate_loop ?d github_session (JStr ''more'') [JStr ''next''] ?w1
      = Some (Inl (OtherError ''ConnectionError''), ?w2)"
    by (subst github_paginate_loop.simps)
       (simp add: session_get_def sample_env_def dropping_http_def)
  have g1: "github_paginate ?d github_session ''more'' w0
      = github_paginate_loop ?d github_session (JStr ''more'') [JStr ''next''] ?w1"
    unfolding github_paginate_def
    by (subst github_paginate_loop.simps)
       (simp add: session_get_def sample_env_def dropping_http_def json_page_def resp_json_def
          github_next_def w0_def)
  have b2: "bitbucket_paginate_loop ?d bitbucket_session (JStr ''more'')
        [JObj [(''next'', JStr ''more'')]] ?w1
      = Some (Inl (OtherError ''ConnectionError''), ?w2)"
    by (subst bitbucket_paginate_loop.simps)
       (simp add: session_get_def sample_env_def dropping_http_def)
  have b1: "bitbucket_paginate ?d bitbucket_session ''more'' w0
      = bitbucket_paginate_loop ?d bitbucket_session (JStr ''more'')
          [JObj [(''next'', JStr ''more'')]] ?w1"
    unfolding bitbucket_paginate_def
    by (subst bitbucket_paginate_loop.simps)
       (simp add: session_get_def sample_env_def dropping_http_def json_page_def resp_json_def
          w0_def)
  show ?thesis
    using g1 g2 b1 b2
    by (simp add: dropping_http_def json_page_def next_link_def link_url_def bitbucket_next_def
          resp_json_def w0_def)
qed

section \<open>Importers without credential or account\<close>

text \<open>
  Claim C3. A user with a stored Bitbucket token has a session. When that user has no
  Bitbucket social-account record the lookup raises \<^verbatim>\<open>DoesNotExist\<close>, which is passed
  over and leaves the account unassigned: with \<^verbatim>\<open>sync\<close> enabled the importer goes on to
  the repository step and fails there, on the reference to the unassigned account while
  it builds the user-repositories URL, before any request; with \<^verbatim>\<open>sync\<close> disabled it
  returns true. The missing account is never reported as such.
\<close>

theorem import_bitbucket_reaches_unset_account:
  assumes "social_tokens_filter env (username u) BitbucketProvider_id = Inr (t # ts)"
    and "filter (\<lambda>a. provider a = BitbucketProvider_id) (socialaccount_set u) = []"
  shows "get_oauth_session env u BitbucketProvider_id =
           Inr (Some (OAuth1Session (client_id (app t)) (secret (app t)) (token t) (token_secret t)))
         \<and> socialaccount_get u BitbucketProvider_id = Inl DoesNotExist
         \<and> import_bitbucket env u True w = Some (Inl UnboundLocalError, w)
         \<and> import_bitbucket env u False w = Some (Inr True, w)"
  using assms
  by (simp add: import_bitbucket_def get_oauth_session_def socialaccount_get_def
        bitbucket_user_phase_def BitbucketProvider_id_def GitHubProvider_id_def)

theorem import_bitbucket_reaches_unset_account_witness:
  "import_bitbucket (sample_env (tokens_of [(''bob'', ''bitbucket'')]) (routes [])) bob True w0
     = Some (Inl UnboundLocalError, w0)
   \<and> import_bitbucket (sample_env (tokens_of [(''bob'', ''bitbucket'')]) (routes [])) bob False w0
     = Some (Inr True, w0)"
proof -
  let ?env = "sample_env (tokens_of [(''bob'', ''bitbucket'')]) (routes [])"
  have tok: "social_tokens_filter ?env (username bob) BitbucketProvider_id
               = Inr (sample_token ''bitbucket'' # [])"
    by (simp add: sample_env_def tokens_of_def bob_def BitbucketProvider_id_def)
  have acc: "filter (\<lambda>a. provider a = BitbucketProvider_id) (socialaccount_set bob) = []"
    by (simp add: bob_def)
  from import_bitbucket_reaches_unset_account[OF tok acc, of w0]
  show ?thesis by simp
qed

text \<open>
  What holds for a user without a token: the session lookup returns nothing; the GitHub
  importer returns false, leaving the world as it was (no request, no exception); the
  Bitbucket importer does the same when the user has at most one Bitbucket social-account
  record.
\<close>

lemma importers_without_credential:
  "(social_tokens_filter env (username u) prov = Inr [] \<longrightarrow>
      get_oauth_session env u prov = Inr None)
   \<and> (social_tokens_filter env (username u) GitHubProvider_id = Inr [] \<longrightarrow>
      import_github env u sync w = Some (Inr False, w))
   \<and> (social_tokens_filter env (username u) BitbucketProvider_id = Inr []
      \<and> length (filter (\<lambda>a. provider a = BitbucketProvider_id) (socialaccount_set u)) \<le> 1 \<longrightarrow>
      import_bitbucket env u sync w = Some (Inr False, w))"
proof (intro conjI impI)
  assume "social_tokens_filter env (username u) prov = Inr []"
  then show "get_oauth_session env u prov = Inr None"
    by (simp add: get_oauth_session_def)
next
  assume "social_tokens_filter env (username u) GitHubProvider_id = Inr []"
  then show "import_github env u sync w = Some (Inr False, w)"
    by (simp add: import_github_def get_oauth_session_def)
next
  assume a: "social_tokens_filter env (username u) BitbucketProvider_id = Inr []
      \<and> length (filter (\<lambda>a. provider a = BitbucketProvider_id) (socialaccount_set u)) \<le> 1"
  then have s: "get_oauth_session env u BitbucketProvider_id = Inr None"
    by (simp add: get_oauth_session_def)
  from a have "socialaccount_get u BitbucketProvider_id = Inl DoesNotExist
      \<or> (\<exists>acc. socialaccount_get u BitbucketProvider_id = Inr acc)"
    by (cases "filter (\<lambda>a. provider a = BitbucketProvider_id) (socialaccount_set u)";
        cases "tl (filter (\<lambda>a. provider a = BitbucketProvider_id) (socialaccount_set u))")
       (auto simp: socialaccount_get_def)
  with s show "import_bitbucket env u sync w = Some (Inr False, w)"
    by (auto simp: import_bitbucket_def)
qed

text \<open>
  Claim C5. A user with no stored token gets no session, and the GitHub importer returns
  false without a request. The Bitbucket importer looks the social account up before it
  tests the session and catches \<^verbatim>\<open>DoesNotExist\<close> only: for a user with no token and two
  Bitbucket social-account records, with or without \<^verbatim>\<open>sync\<close>, it does not return false
  but raises \<^verbatim>\<open>MultipleObjectsReturned\<close> (still without a request).
\<close>

theorem import_bitbucket_two_accounts_raises:
  "social_tokens_filter (sample_env (tokens_of []) (routes [])) (username carol)
       BitbucketProvider_id = Inr []
   \<and> get_oauth_session (sample_env (tokens_of []) (routes [])) carol BitbucketProvider_id
       = Inr None
   \<and> import_github (sample_env (tokens_of []) (routes [])) carol True w0 = Some (Inr False, w0)
   \<and> import_bitbucket (sample_env (tokens_of []) (routes [])) carol True w0
       = Some (Inl MultipleObjectsReturned, w0)
   \<and> import_bitbucket (sample_env (tokens_of []) (routes [])) carol False w0
       = Some (Inl MultipleObjectsReturned, w0)"
  by (simp add: import_bitbucket_def import_github_def get_oauth_session_def
        socialaccount_get_def sample_env_def tokens_of_def carol_def BitbucketProvider_id_def)

text \<open>
  Claim C8. For a project at \<^verbatim>\<open>git@github.com:owner/repo.git\<close>, which the URL parser
  splits into owner \<^verbatim>\<open>owner\<close> and repository \<^verbatim>\<open>repo\<close>, \<^verbatim>\<open>add_github_webhook\<close> issues
  exactly one request: a POST to \<^verbatim>\<open>https://api.github.com/repos/owner/repo/hooks\<close> whose
  JSON body has \<^verbatim>\<open>"active": true\<close> and the hook URL built from the configured
  production domain. Its result is the answer to that request, and the database is left
  alone.
\<close>

theorem add_github_webhook_posts_once:
  assumes "repo p = ''git@github.com:owner/repo.git''"
    and "get_github_username_repo env (repo p) = (Some ''owner'', Some ''repo'')"
  shows "http_log (snd (add_github_webhook env s p w)) =
           http_log w @
             [POST ''https://api.github.com/repos/owner/repo/hooks''
                (JsonDumps (JObj [(''name'', JStr ''readthedocs''),
                                  (''active'', JBool True),
                                  (''config'', JObj [(''url'',
                                      JStr (''https://'' @ PRODUCTION_DOMAIN env @ ''/github''))])]))
                [(''content-type'', ''application/json'')]]
         \<and> fst (add_github_webhook env s p w) =
             http env (http_log w) s
               (POST ''https://api.github.com/repos/owner/repo/hooks''
                  (JsonDumps (JObj [(''name'', JStr ''readthedocs''),
                                    (''active'', JBool True),
                                    (''config'', JObj [(''url'',
                                        JStr (''https://'' @ PRODUCTION_DOMAIN env @ ''/github''))])]))
                  [(''content-type'', ''application/json'')])
         \<and> db (snd (add_github_webhook env s p w)) = db w"
  using assms(2)
  by (cases "http env (http_log w) s
               (POST ''https://api.github.com/repos/owner/repo/hooks''
                  (JsonDumps (JObj [(''name'', JStr ''readthedocs''),
                                    (''active'', JBool True),
                                    (''config'', JObj [(''url'',
                                        JStr (''https://'' @ PRODUCTION_DOMAIN env @ ''/github''))])]))
                  [(''content-type'', ''application/json'')])")
     (simp_all add: add_github_webhook_def session_post_def format_opt_def Let_def)

theorem add_github_webhook_posts_once_witness:
  "http_log (snd (add_github_webhook (sample_env (tokens_of []) (routes hook_routes))
       github_session sample_project w0)) =
     [POST ''https://api.github.com/repos/owner/repo/hooks''
        (JsonDumps (JObj [(''name'', JStr ''readthedocs''),
                          (''active'', JBool True),
                          (''config'', JObj [(''url'', JStr ''https://readthedocs.org/github'')])]))
        [(''content-type'', ''application/json'')]]
   \<and> fst (add_github_webhook (sample_env (tokens_of []) (routes hook_routes))
       github_session sample_project w0) = Inr (snd (hd hook_routes))"
proof -
  let ?env = "sample_env (tokens_of []) (routes hook_routes)"
  have r: "repo sample_project = ''git@github.com:owner/repo.git''"
    by (simp add: sample_project_def)
  have p: "get_github_username_repo ?env (repo sample_project) = (Some ''owner'', Some ''repo'')"
    by (simp add: sample_project_def sample_env_def sample_parse_def)
  from add_github_webhook_posts_once[OF r p, of github_session w0]
  show ?thesis
    by (simp add: sample_env_def w0_def routes_def hook_routes_def)
qed

section \<open>Project token lookup\<close>

lemma token_for_users_raised:
  "token_for_users env us t0 = (Some e, tok) \<Longrightarrow>
   \<exists>pre u rest. us = pre @ u # rest
      \<and> social_tokens_filter env (username u) GitHubProvider_id = Inl e
      \<and> token_for_users env pre t0 = (None, tok)"
proof (induction us arbitrary: t0)
  case Nil
  then show ?case by simp
next
  case (Cons v vs)
  show ?case
  proof (cases "social_tokens_filter env (username v) GitHubProvider_id")
    case (Inl e')
    with Cons.prems have "e' = e" "tok = t0" by simp_all
    with Inl have "v # vs = [] @ v # vs
        \<and> social_tokens_filter env (username v) GitHubProvider_id = Inl e
        \<and> token_for_users env [] t0 = (None, tok)"
      by simp
    then show ?thesis by blast
  next
    case (Inr tokens)
    let ?t1 = "case tokens of [] \<Rightarrow> t0 | t # _ \<Rightarrow> JStr (token t)"
    from Cons.prems Inr have "token_for_users env vs ?t1 = (Some e, tok)" by simp
    from Cons.IH[OF this] obtain pre u rest where
      vs: "vs = pre @ u # rest" and
      u: "social_tokens_filter env (username u) GitHubProvider_id = Inl e" and
      pre: "token_for_users env pre ?t1 = (None, tok)"
      by blast
    from pre Inr have "token_for_users env (v # pre) t0 = (None, tok)" by simp
    with vs u have "v # vs = (v # pre) @ u # rest
        \<and> social_tokens_filter env (username u) GitHubProvider_id = Inl e
        \<and> token_for_users env (v # pre) t0 = (None, tok)"
      by simp
    then show ?thesis by blast
  qed
qed

lemma token_for_users_append:
  "token_for_users env (us @ vs) t0 =
     (case token_for_users env us t0 of
        (Some e, t) \<Rightarrow> (Some e, t)
      | (None, t) \<Rightarrow> token_for_users env vs t)"
  by (induction us arbitrary: t0) (simp_all split: sum.splits)

lemma token_for_users_all_answered:
  "token_for_users env us t0 = (None, tok) \<Longrightarrow>
   \<exists>tokenss. map (\<lambda>v. social_tokens_filter env (username v) GitHubProvider_id) us
                = map Inr tokenss"
proof (induction us arbitrary: t0)
  case Nil
  then show ?case by simp
next
  case (Cons v vs)
  then obtain ts where ts: "social_tokens_filter env (username v) GitHubProvider_id = Inr ts"
    by (cases "social_tokens_filter env (username v) GitHubProvider_id") auto
  with Cons.prems Cons.IH obtain tss where
    "map (\<lambda>v. social_tokens_filter env (username v) GitHubProvider_id) vs = map Inr tss"
    by fastforce
  with ts have "map (\<lambda>v. social_tokens_filter env (username v) GitHubProvider_id) (v # vs)
      = map Inr (ts # tss)" by simp
  then show ?case by blast
qed

lemma token_for_users_last:
  "map (\<lambda>v. social_tokens_filter env (username v) GitHubProvider_id) us = map Inr tokenss \<Longrightarrow>
   token_for_users env us JNull = (None, last_credential tokenss)"
proof (induction us arbitrary: tokenss rule: rev_induct)
  case Nil
  then show ?case by (simp add: last_credential_def)
next
  case (snoc u us)
  from snoc.prems obtain tss ts where
    t: "tokenss = tss @ [ts]" and
    us: "map (\<lambda>v. social_tokens_filter env (username v) GitHubProvider_id) us = map Inr tss" and
    u: "social_tokens_filter env (username u) GitHubProvider_id = Inr ts"
    by (cases tokenss rule: rev_cases) auto
  from snoc.IH[OF us] have "token_for_users env us JNull = (None, last_credential tss)" .
  then have "token_for_users env (us @ [u]) JNull =
      (None, case ts of [] \<Rightarrow> last_credential tss | t # _ \<Rightarrow> JStr (token t))"
    using u by (simp add: token_for_users_append)
  also have "(case ts of [] \<Rightarrow> last_credential tss | t # _ \<Rightarrow> JStr (token t))
      = last_credential (tss @ [ts])"
    by (cases ts) (simp_all add: last_credential_def)
  finally show ?case by (simp add: t)
qed

text \<open>
  Claim C4 (amended). With private repositories allowed, when the lookup raises an
  exception of the \<^verbatim>\<open>Exception\<close> hierarchy, \<^verbatim>\<open>get_token_for_project\<close> logs the failure,
  raises nothing, and returns the value \<^verbatim>\<open>token\<close> holds at that point. On the remote
  path, where the request or the subscript raises, that is \<^verbatim>\<open>None\<close>. On the local path it
  is \<^verbatim>\<open>None\<close> when the query for the users raises; when the credential query raises for a
  user, it is the last credential found among the users before that one (\<^verbatim>\<open>None\<close> when
  there is none). These are the only ways the lookup raises.
\<close>

theorem token_lookup_failure_logged_and_swallowed:
  assumes "ALLOW_PRIVATE_REPOS env = Some True"
    and "is_Exception e"
    and "remote = ((case DONT_HIT_DB env of None \<Rightarrow> True | Some b \<Rightarrow> b) \<and> \<not> force_local)"
    and "logs = w\<lparr>logged := logged w @ [LogError ''Failed to get token for user'']\<rparr>"
  shows
   "(remote \<and> (api_project_token_get env (pk p) = Inl e
               \<or> (\<exists>j. api_project_token_get env (pk p) = Inr j \<and> py_getitem j ''token'' = Inl e))
      \<longrightarrow> get_token_for_project env p force_local w = (Inr JNull, logs))
    \<and> (\<not> remote \<and> users_all p = Inl e
      \<longrightarrow> get_token_for_project env p force_local w = (Inr JNull, logs))
    \<and> (\<forall>pre u rest tokenss.
          \<not> remote \<and> users_all p = Inr (pre @ u # rest)
          \<and> map (\<lambda>v. social_tokens_filter env (username v) GitHubProvider_id) pre
              = map Inr tokenss
          \<and> social_tokens_filter env (username u) GitHubProvider_id = Inl e
      \<longrightarrow> get_token_for_project env p force_local w = (Inr (last_credential tokenss), logs))
    \<and> (\<forall>tok. token_lookup env p force_local = (Some e, tok)
      \<longrightarrow> get_token_for_project env p force_local w = (Inr tok, logs)
          \<and> (if remote
               then tok = JNull
                  \<and> (api_project_token_get env (pk p) = Inl e
                     \<or> (\<exists>j. api_project_token_get env (pk p) = Inr j
                             \<and> py_getitem j ''token'' = Inl e))
               else (users_all p = Inl e \<and> tok = JNull)
                  \<or> (\<exists>pre u rest tokenss. users_all p = Inr (pre @ u # rest)
                        \<and> map (\<lambda>v. social_tokens_filter env (username v) GitHubProvider_id) pre
                            = map Inr tokenss
                        \<and> social_tokens_filter env (username u) GitHubProvider_id = Inl e
                        \<and> tok = last_credential tokenss)))"
proof -
  have get: "get_token_for_project env p force_local w = (Inr tok, logs)"
    if "token_lookup env p force_local = (Some e, tok)" for tok
    using that assms(1,2,4) by (simp add: get_token_for_project_def)
  have 1: "get_token_for_project env p force_local w = (Inr JNull, logs)"
    if "remote \<and> (api_project_token_get env (pk p) = Inl e
               \<or> (\<exists>j. api_project_token_get env (pk p) = Inr j \<and> py_getitem j ''token'' = Inl e))"
  proof -
    from that assms(3) have "token_lookup env p force_local = (Some e, JNull)"
      by (auto simp: token_lookup_def)
    then show ?thesis by (rule get)
  qed
  have 2: "get_token_for_project env p force_local w = (Inr JNull, logs)"
    if "\<not> remote \<and> users_all p = Inl e"
  proof -
    from that assms(3) have "token_lookup env p force_local = (Some e, JNull)"
      by (auto simp: token_lookup_def)
    then show ?thesis by (rule get)
  qed
  have 3: "get_token_for_project env p force_local w = (Inr (last_credential tokenss), logs)"
    if "\<not> remote \<and> users_all p = Inr (pre @ u # rest)
          \<and> map (\<lambda>v. social_tokens_filter env (username v) GitHubProvider_id) pre
              = map Inr tokenss
          \<and> social_tokens_filter env (username u) GitHubProvider_id = Inl e"
    for pre u rest tokenss
  proof -
    from that have pre: "token_for_users env pre JNull = (None, last_credential tokenss)"
      using token_for_users_last by blast
    from that have u: "social_tokens_filter env (username u) GitHubProvider_id = Inl e" by simp
    have "token_for_users env (pre @ u # rest) JNull = (Some e, last_credential tokenss)"
      using pre u by (simp add: token_for_users_append)
    with that assms(3) have
      "token_lookup env p force_local = (Some e, last_credential tokenss)"
      by (auto simp: token_lookup_def)
    then show ?thesis by (rule get)
  qed
  have 4: "if remote
           then tok = JNull
              \<and> (api_project_token_get env (pk p) = Inl e
                 \<or> (\<exists>j. api_project_token_get env (pk p) = Inr j
                         \<and> py_getitem j ''token'' = Inl e))
           else (users_all p = Inl e \<and> tok = JNull)
              \<or> (\<exists>pre u rest tokenss. users_all p = Inr (pre @ u # rest)
                    \<and> map (\<lambda>v. social_tokens_filter env (username v) GitHubProvider_id) pre
                        = map Inr tokenss
                    \<and> social_tokens_filter env (username u) GitHubProvider_id = Inl e
                    \<and> tok = last_credential tokenss)"
    if l: "token_lookup env p force_local = (Some e, tok)" for tok
  proof (cases remote)
    case True
    with l assms(3) show ?thesis
      by (auto simp: token_lookup_def split: sum.splits)
  next
    case False
    show ?thesis
    proof (cases "users_all p")
      case (Inl e')
      with l False assms(3) show ?thesis by (auto simp: token_lookup_def)
    next
      case (Inr us)
      with l False assms(3) have "token_for_users env us JNull = (Some e, tok)"
        by (auto simp: token_lookup_def)
      from token_for_users_raised[OF this] obtain pre u rest where
        us: "us = pre @ u # rest" and
        u: "social_tokens_filter env (username u) GitHubProvider_id = Inl e" and
        pre: "token_for_users env pre JNull = (None, tok)"
        by blast
      from token_for_users_all_answered[OF pre] obtain tokenss where
        tss: "map (\<lambda>v. social_tokens_filter env (username v) GitHubProvider_id) pre
                = map Inr tokenss" ..
      from token_for_users_last[OF tss] pre have "tok = last_credential tokenss" by simp
      with Inr us u tss False show ?thesis by auto
    qed
  qed
  from 1 2 3 4 get show ?thesis by blast
qed

theorem token_lookup_failure_logged_and_swallowed_witness:
  "get_token_for_project ((sample_env (tokens_of []) (routes []))\<lparr>DONT_HIT_DB := Some True\<rparr>)
       sample_project False w0
     = (Inr JNull, w0\<lparr>logged := [LogError ''Failed to get token for user'']\<rparr>)
   \<and> get_token_for_project (sample_env (named_tokens [''bob''] [''dave'']) (routes []))
       (sample_project\<lparr>users_all := Inr [bob, alice]\<rparr>) False w0
     = (Inr JNull, w0\<lparr>logged := [LogError ''Failed to get token for user'']\<rparr>)
   \<and> get_token_for_project (sample_env (named_tokens [''bob''] [''dave'']) (routes []))
       (sample_project\<lparr>users_all := Inr [alice, carol, dave, bob, alice]\<rparr>) False w0
     = (Inr (JStr ''token-of-carol''), w0\<lparr>logged := [LogError ''Failed to get token for user'']\<rparr>)"
proof -
  let ?remote = "(sample_env (tokens_of []) (routes []))\<lparr>DONT_HIT_DB := Some True\<rparr>"
  let ?local = "sample_env (named_tokens [''bob''] [''dave'']) (routes [])"
  let ?p1 = "sample_project\<lparr>users_all := Inr [bob, alice]\<rparr>"
  let ?p2 = "sample_project\<lparr>users_all := Inr [alice, carol, dave, bob, alice]\<rparr>"
  let ?logs = "w0\<lparr>logged := logged w0 @ [LogError ''Failed to get token for user'']\<rparr>"
  let ?ta = "(sample_token GitHubProvider_id)\<lparr>token := ''token-of-alice''\<rparr>"
  let ?tc = "(sample_token GitHubProvider_id)\<lparr>token := ''token-of-carol''\<rparr>"
  have a1: "ALLOW_PRIVATE_REPOS ?remote = Some True" by (simp add: sample_env_def)
  have a2: "ALLOW_PRIVATE_REPOS ?local = Some True" by (simp add: sample_env_def)
  have e: "is_Exception (OtherError x)" for x by simp
  have r1: "True = ((case DONT_HIT_DB ?remote of None \<Rightarrow> True | Some b \<Rightarrow> b) \<and> \<not> False)"
    by (simp add: sample_env_def)
  have r2: "False = ((case DONT_HIT_DB ?local of None \<Rightarrow> True | Some b \<Rightarrow> b) \<and> \<not> False)"
    by (simp add: sample_env_def)
  have h1: "True \<and> (api_project_token_get ?remote (pk sample_project)
                      = Inl (OtherError ''HttpClientError'')
               \<or> (\<exists>j. api_project_token_get ?remote (pk sample_project) = Inr j
                       \<and> py_getitem j ''token'' = Inl (OtherError ''HttpClientError'')))"
    by (simp add: sample_env_def)
  have h2: "\<not> False \<and> users_all ?p1 = Inr ([] @ bob # [alice])
      \<and> map (\<lambda>v. social_tokens_filter ?local (username v) GitHubProvider_id) [] = map Inr []
      \<and> social_tokens_filter ?local (username bob) GitHubProvider_id
          = Inl (OtherError ''OperationalError'')"
    by (simp add: sample_env_def named_tokens_def bob_def)
  have h3: "\<not> False \<and> users_all ?p2 = Inr ([alice, carol, dave] @ bob # [alice])
      \<and> map (\<lambda>v. social_tokens_filter ?local (username v) GitHubProvider_id) [alice, carol, dave]
          = map Inr [[?ta], [?tc], []]
      \<and> social_tokens_filter ?local (username bob) GitHubProvider_id
          = Inl (OtherError ''OperationalError'')"
    by (simp add: sample_env_def named_tokens_def alice_def bob_def carol_def dave_def)
  from token_lookup_failure_logged_and_swallowed[where w=w0 and p=sample_project,
         OF a1 e r1 refl, THEN conjunct1, rule_format, OF h1]
       token_lookup_failure_logged_and_swallowed[where w=w0 and p="?p1",
         OF a2 e r2 refl,
         THEN conjunct2, THEN conjunct2, THEN conjunct1, rule_format, OF h2]
       token_lookup_failure_logged_and_swallowed[where w=w0 and p="?p2",
         OF a2 e r2 refl,
         THEN conjunct2, THEN conjunct2, THEN conjunct1, rule_format, OF h3]
  show ?thesis by (simp add: w0_def last_credential_def)
qed

text \<open>
  On the local path, with tokens found for the first two users and the query for the
  third one failing, the failure is logged and the second user's token is returned.
\<close>

theorem token_lookup_failure_logged_and_swallowed_counterexample:
  "token_lookup (sample_env (named_tokens [''bob''] []) (routes []))
       (sample_project\<lparr>users_all := Inr [alice, carol, bob]\<rparr>) False
     = (Some (OtherError ''OperationalError''), JStr ''token-of-carol'')
   \<and> get_token_for_project (sample_env (named_tokens [''bob''] []) (routes []))
       (sample_project\<lparr>users_all := Inr [alice, carol, bob]\<rparr>) False w0
     = (Inr (JStr ''token-of-carol''),
        w0\<lparr>logged := [LogError ''Failed to get token for user'']\<rparr>)"
  by (simp add: get_token_for_project_def token_lookup_def sample_env_def sample_project_def
        named_tokens_def sample_token_def alice_def bob_def carol_def w0_def
        GitHubProvider_id_def)

section \<open>Page processing of the Bitbucket importer\<close>











section \<open>Failure of the first phase of the GitHub importer\<close>

lemma github_create_repos_append:
  "github_create_repos env u org pre w = (Inr (), w1) \<Longrightarrow>
   github_create_repos env u org (pre @ rest) w = github_create_repos env u org rest w1"
proof (induction pre arbitrary: w)
  case Nil
  then show ?case by simp
next
  case (Cons r pre)
  then show ?case by (auto split: sum.splits)
qed

lemma github_create_repos_frame:
  "github_create_repos env u org rs w = (res, w') \<Longrightarrow>
   http_log w' = http_log w \<and> printed w' = printed w \<and> logged w' = logged w"
proof (induction rs arbitrary: w)
  case Nil
  then show ?case by simp
next
  case (Cons r rs)
  show ?case
  proof (cases "repo_create_from_github_api env r u org (db w)")
    case (Inl e)
    with Cons.prems show ?thesis by simp
  next
    case (Inr d)
    with Cons.prems have "github_create_repos env u org rs (w\<lparr>db := d\<rparr>) = (res, w')" by simp
    from Cons.IH[OF this] show ?thesis by simp
  qed
qed

text \<open>
  Claim C2 (amended). In a GitHub import with a session and \<^verbatim>\<open>sync\<close> enabled, when the
  paginated user-repository listing has been obtained and the creation method raises
  \<^verbatim>\<open>TypeError\<close> or \<^verbatim>\<open>ValueError\<close> on one of its items, the items before it having been
  upserted, the importer raises the first reconnect error; the world it leaves is the one
  after those upserts: nothing is rolled back, nothing more is upserted, and no further
  request is made.
\<close>

theorem import_github_phase1_reconnect_error:
  assumes "social_tokens_filter env (username u) GitHubProvider_id = Inr (t # ts)"
    and "github_paginate env (OAuth2Session (client_id (app t)) (token t) ''bearer'')
           ''https://api.github.com/user/repos?per_page=100'' w
         = Some (Inr (pre @ bad # rest), w1)"
    and "github_create_repos env u None pre w1 = (Inr (), w2)"
    and "repo_create_from_github_api env bad u None (db w2) = Inl e"
    and "e = TypeError \<or> e = ValueError"
  shows "import_github env u True w = Some (Inl (PyException github_repos_msg), w2)
         \<and> http_log w2 = http_log w1 \<and> printed w2 = printed w1 \<and> logged w2 = logged w1"
proof -
  have s: "get_oauth_session env u GitHubProvider_id
             = Inr (Some (OAuth2Session (client_id (app t)) (token t) ''bearer''))"
    using assms(1) by (simp add: get_oauth_session_def)
  have "github_create_repos env u None (pre @ bad # rest) w1
          = github_create_repos env u None (bad # rest) w2"
    using assms(3) by (rule github_create_repos_append)
  also have "\<dots> = (Inl e, w2)" using assms(4) by simp
  finally have c: "github_create_repos env u None (pre @ bad # rest) w1 = (Inl e, w2)" .
  have "import_github env u True w = Some (Inl (PyException github_repos_msg), w2)"
    using s assms(2) c assms(5) by (auto simp: import_github_def)
  moreover from github_create_repos_frame[OF assms(3)]
  have "http_log w2 = http_log w1 \<and> printed w2 = printed w1 \<and> logged w2 = logged w1" .
  ultimately show ?thesis by simp
qed

lemma alice_github_session:
  "social_tokens_filter (sample_env alice_tokens net) (username alice) GitHubProvider_id
     = Inr (sample_token ''github'' # [])"
  by (simp add: sample_env_def alice_tokens_def tokens_of_def alice_def GitHubProvider_id_def)

lemma github_single_page:
  assumes "map_of tbl url = Some (json_page j None)" and "py_iter j = Inr items" and "url \<noteq> []"
  shows "github_paginate (sample_env toks (routes tbl)) s url w
           = Some (Inr items, w\<lparr>http_log := http_log w @ [GET (JStr url)]\<rparr>)"
proof -
  let ?env = "sample_env toks (routes tbl)"
  have chain: "github_pages ?env s (http_log w) (JStr url) [json_page j None]"
    using assms
    by (simp add: sample_env_def routes_def next_link_def link_url_def json_page_def)
  have items: "map github_page_items [json_page j None] = map Some [items]"
    using assms(2) by (simp add: github_page_items_def resp_json_def json_page_def)
  from github_loop_chain[OF chain items, of "[]"] show ?thesis
    by (simp add: github_paginate_def)
qed

text \<open>
  The listing is a single JSON object (its keys are iterated and the creation method
  raises on the first), or an array whose second item is not an object.
\<close>

theorem import_github_phase1_reconnect_error_witness:
  "import_github (sample_env alice_tokens (routes bad_credentials_routes)) alice True w0
     = Some (Inl (PyException github_repos_msg), w0\<lparr>http_log := [GET (JStr github_repos_url)]\<rparr>)
   \<and> import_github (sample_env alice_tokens (routes mixed_array_routes)) alice True w0
     = Some (Inl (PyException github_repos_msg),
             w0\<lparr>http_log := [GET (JStr github_repos_url)], db := [JObj [(''name'', JStr ''one'')]]\<rparr>)"
proof -
  let ?e1 = "sample_env alice_tokens (routes bad_credentials_routes)"
  let ?e2 = "sample_env alice_tokens (routes mixed_array_routes)"
  let ?s = "OAuth2Session (client_id (app (sample_token ''github'')))
              (token (sample_token ''github'')) ''bearer''"
  let ?w1 = "w0\<lparr>http_log := http_log w0 @ [GET (JStr github_repos_url)]\<rparr>"
  let ?w2 = "?w1\<lparr>db := [JObj [(''name'', JStr ''one'')]]\<rparr>"
  have u: "''https://api.github.com/user/repos?per_page=100'' = github_repos_url"
    by (simp add: github_repos_url_def)
  have p1: "github_paginate ?e1 ?s ''https://api.github.com/user/repos?per_page=100'' w0
      = Some (Inr ([] @ JStr ''message'' # []), ?w1)"
    unfolding u
    using github_single_page[of bad_credentials_routes github_repos_url
        "JObj [(''message'', JStr ''Bad credentials'')]" "[JStr ''message'']" alice_tokens ?s w0]
    by (simp add: bad_credentials_routes_def github_repos_url_def)
  have c1: "github_create_repos ?e1 alice None [] ?w1 = (Inr (), ?w1)" by simp
  have b1: "repo_create_from_github_api ?e1 (JStr ''message'') alice None (db ?w1) = Inl TypeError"
    by (simp add: sample_env_def sample_create_def)
  have p2: "github_paginate ?e2 ?s ''https://api.github.com/user/repos?per_page=100'' w0
      = Some (Inr ([JObj [(''name'', JStr ''one'')]] @ JNum 5 # [JObj [(''name'', JStr ''two'')]]), ?w1)"
    unfolding u
    using github_single_page[of mixed_array_routes github_repos_url
        "JArr [JObj [(''name'', JStr ''one'')], JNum 5, JObj [(''name'', JStr ''two'')]]"
        "[JObj [(''name'', JStr ''one'')], JNum 5, JObj [(''name'', JStr ''two'')]]"
        alice_tokens ?s w0]
    by (simp add: mixed_array_routes_def github_repos_url_def)
  have c2: "github_create_repos ?e2 alice None [JObj [(''name'', JStr ''one'')]] ?w1 = (Inr (), ?w2)"
    by (simp add: sample_env_def sample_create_def w0_def)
  have b2: "repo_create_from_github_api ?e2 (JNum 5) alice None (db ?w2) = Inl TypeError"
    by (simp add: sample_env_def sample_create_def)
  have e: "TypeError = TypeError \<or> TypeError = ValueError" by simp
  from import_github_phase1_reconnect_error[OF alice_github_session p1 c1 b1 e, THEN conjunct1]
       import_github_phase1_reconnect_error[OF alice_github_session p2 c2 b2 e, THEN conjunct1]
  show ?thesis by (simp add: w0_def)
qed

text \<open>
  A listing that is the empty JSON object raises nothing: the import goes on to the
  organizations and returns true. A listing that is \<^verbatim>\<open>null\<close> makes the pagination itself
  raise \<^verbatim>\<open>TypeError\<close>, outside the \<^verbatim>\<open>try\<close> block, and that is what the importer raises.
\<close>

theorem import_github_phase1_reconnect_error_counterexample:
  "import_github (sample_env alice_tokens (routes empty_object_routes)) alice True w0
     = Some (Inr True, w0\<lparr>http_log := [GET (JStr github_repos_url),
                                         GET (JStr ''https://api.github.com/user/orgs'')]\<rparr>)
   \<and> import_github (sample_env alice_tokens (routes null_routes)) alice True w0
     = Some (Inl TypeError, w0\<lparr>http_log := [GET (JStr github_repos_url)]\<rparr>)"
proof -
  let ?e1 = "sample_env alice_tokens (routes empty_object_routes)"
  let ?e2 = "sample_env alice_tokens (routes null_routes)"
  let ?s = "OAuth2Session ''client-id'' ''access-token'' ''bearer''"
  have s: "get_oauth_session (sample_env alice_tokens net) alice GitHubProvider_id = Inr (Some ?s)"
    for net
    by (simp add: get_oauth_session_def alice_github_session sample_token_def)
  have p1: "github_paginate ?e1 ?s ''https://api.github.com/user/repos?per_page=100'' w0
      = Some (Inr [], w0\<lparr>http_log := http_log w0 @ [GET (JStr github_repos_url)]\<rparr>)"
    using github_single_page[of empty_object_routes github_repos_url "JObj []" "[]"
        alice_tokens ?s w0]
    by (simp add: empty_object_routes_def github_repos_url_def)
  have o1: "github_org_phase ?e1 ?s alice (w0\<lparr>http_log := http_log w0 @ [GET (JStr github_repos_url)]\<rparr>)
      = Some (Inr (), w0\<lparr>http_log := [GET (JStr github_repos_url),
                                         GET (JStr ''https://api.github.com/user/orgs'')]\<rparr>)"
    by (simp add: github_org_phase_def session_get_def sample_env_def routes_def
          empty_object_routes_def github_repos_url_def json_page_def resp_json_def w0_def)
  have p2: "github_paginate ?e2 ?s ''https://api.github.com/user/repos?per_page=100'' w0
      = Some (Inl TypeError, w0\<lparr>http_log := [GET (JStr github_repos_url)]\<rparr>)"
    unfolding github_paginate_def
    by (subst github_paginate_loop.simps)
       (simp add: session_get_def sample_env_def routes_def null_routes_def github_repos_url_def
          json_page_def resp_json_def w0_def)
  show ?thesis
    using s p1 o1 p2 by (simp add: import_github_def)
qed

section \<open>Handlers of the Bitbucket importer\<close>

text \<open>
  Claim C1 (amended). In a Bitbucket import with a session, an account and \<^verbatim>\<open>sync\<close>
  enabled: a \<^verbatim>\<open>TypeError\<close> or \<^verbatim>\<open>ValueError\<close> raised by the pagination of the user's
  repositories (as when a repository page is not JSON), and a \<^verbatim>\<open>ValueError\<close> raised
  while the fetched pages are processed, is re-raised as the repositories reconnect
  error; a \<^verbatim>\<open>TypeError\<close> raised while the pages are processed is caught and printed by
  \<^verbatim>\<open>process_bitbucket_json\<close>, and the first block completes; a \<^verbatim>\<open>ValueError\<close> raised
  inside the second \<^verbatim>\<open>try\<close> block, that is once the privileges request has been
  answered (as when that answer is not JSON), is re-raised as the team repositories
  reconnect error; the two messages differ.
\<close>

theorem import_bitbucket_reraise_policy:
  assumes "social_tokens_filter env (username u) BitbucketProvider_id = Inr (t # ts)"
    and "socialaccount_get u BitbucketProvider_id = Inr a"
    and "s = OAuth1Session (client_id (app t)) (secret (app t)) (token t) (token_secret t)"
    and "url = ''https://bitbucket.org/api/2.0/repositories/'' @ uid a"
  shows
   "(\<forall>e w1. bitbucket_paginate env s url w = Some (Inl e, w1) \<and> (e = TypeError \<or> e = ValueError)
        \<longrightarrow> import_bitbucket env u True w = Some (Inl (PyException bitbucket_repos_msg), w1))
    \<and> (\<forall>pages w1 w2. bitbucket_paginate env s url w = Some (Inr pages, w1)
          \<and> bitbucket_process_pages env u pages w1 = (Inl ValueError, w2)
        \<longrightarrow> import_bitbucket env u True w = Some (Inl (PyException bitbucket_repos_msg), w2))
    \<and> (\<forall>pages w1 w2. bitbucket_paginate env s url w = Some (Inr pages, w1)
          \<and> bitbucket_process_pages env u pages w1 = (Inl TypeError, w2)
        \<longrightarrow> bitbucket_user_phase env s u (Some a) w
              = Some (Inr (), w2\<lparr>printed := printed w2 @ [TypeError]\<rparr>))
    \<and> (\<forall>w1 resp w2 w3. bitbucket_user_phase env s u (Some a) w = Some (Inr (), w1)
          \<and> session_get env s (JStr ''https://bitbucket.org/api/1.0/user/privileges/'') w1
              = (Inr resp, w2)
          \<and> bitbucket_team_phase env s u resp w2 = Some (Inl ValueError, w3)
        \<longrightarrow> import_bitbucket env u True w = Some (Inl (PyException bitbucket_teams_msg), w3))
    \<and> bitbucket_repos_msg \<noteq> bitbucket_teams_msg
    \<and> (\<forall>r. http env (http_log w) s (GET (JStr url)) = Inr r \<and> json_body r = None
        \<longrightarrow> import_bitbucket env u True w
              = Some (Inl (PyException bitbucket_repos_msg),
                      w\<lparr>http_log := http_log w @ [GET (JStr url)]\<rparr>))
    \<and> (\<forall>w1 resp. bitbucket_user_phase env s u (Some a) w = Some (Inr (), w1)
          \<and> http env (http_log w1) s (GET (JStr ''https://bitbucket.org/api/1.0/user/privileges/''))
              = Inr resp
          \<and> json_body resp = None
        \<longrightarrow> import_bitbucket env u True w
              = Some (Inl (PyException bitbucket_teams_msg),
                      w1\<lparr>http_log := http_log w1
                            @ [GET (JStr ''https://bitbucket.org/api/1.0/user/privileges/'')]\<rparr>))"
proof -
  have sess: "get_oauth_session env u BitbucketProvider_id = Inr (Some s)"
    using assms(1,3)
    by (simp add: get_oauth_session_def BitbucketProvider_id_def GitHubProvider_id_def)
  have imp: "import_bitbucket env u True w =
      (case bitbucket_user_phase env s u (Some a) w of
         None \<Rightarrow> None
       | Some (Inl e, w1) \<Rightarrow>
           Some (Inl (if e = TypeError \<or> e = ValueError
                      then PyException bitbucket_repos_msg else e), w1)
       | Some (Inr _, w1) \<Rightarrow>
           (case session_get env s
                   (JStr ''https://bitbucket.org/api/1.0/user/privileges/'') w1 of
              (Inl e, w2) \<Rightarrow> Some (Inl e, w2)
            | (Inr resp, w2) \<Rightarrow>
                (case bitbucket_team_phase env s u resp w2 of
                   None \<Rightarrow> None
                 | Some (Inl e, w3) \<Rightarrow>
                     Some (Inl (if e = ValueError
                                then PyException bitbucket_teams_msg else e), w3)
                 | Some (Inr _, w3) \<Rightarrow> Some (Inr True, w3))))"
    using sess assms(2) by (simp add: import_bitbucket_def)
  have 1: "import_bitbucket env u True w = Some (Inl (PyException bitbucket_repos_msg), w1)"
    if "bitbucket_paginate env s url w = Some (Inl e, w1)" "e = TypeError \<or> e = ValueError"
    for e w1
    using that assms(4) by (auto simp: imp bitbucket_user_phase_def)
  have 2: "import_bitbucket env u True w = Some (Inl (PyException bitbucket_repos_msg), w2)"
    if "bitbucket_paginate env s url w = Some (Inr pages, w1)"
      "bitbucket_process_pages env u pages w1 = (Inl ValueError, w2)"
    for pages w1 w2
    using that assms(4) by (simp add: imp bitbucket_user_phase_def process_bitbucket_json_def)
  have 3: "bitbucket_user_phase env s u (Some a) w
              = Some (Inr (), w2\<lparr>printed := printed w2 @ [TypeError]\<rparr>)"
    if "bitbucket_paginate env s url w = Some (Inr pages, w1)"
      "bitbucket_process_pages env u pages w1 = (Inl TypeError, w2)"
    for pages w1 w2
    using that assms(4) by (simp add: bitbucket_user_phase_def process_bitbucket_json_def)
  have 4: "import_bitbucket env u True w = Some (Inl (PyException bitbucket_teams_msg), w3)"
    if "bitbucket_user_phase env s u (Some a) w = Some (Inr (), w1)"
      "session_get env s (JStr ''https://bitbucket.org/api/1.0/user/privileges/'') w1
              = (Inr resp, w2)"
      "bitbucket_team_phase env s u resp w2 = Some (Inl ValueError, w3)"
    for w1 resp w2 w3
    using that by (simp add: imp)
  have 5: "bitbucket_repos_msg \<noteq> bitbucket_teams_msg"
    by (simp add: bitbucket_repos_msg_def bitbucket_teams_msg_def)
  have 6: "import_bitbucket env u True w
              = Some (Inl (PyException bitbucket_repos_msg),
                      w\<lparr>http_log := http_log w @ [GET (JStr url)]\<rparr>)"
    if "http env (http_log w) s (GET (JStr url)) = Inr r" "json_body r = None" for r
  proof -
    have "url \<noteq> []" using assms(4) by simp
    with that have "bitbucket_paginate env s url w
        = Some (Inl ValueError, w\<lparr>http_log := http_log w @ [GET (JStr url)]\<rparr>)"
      unfolding bitbucket_paginate_def
      by (subst bitbucket_paginate_loop.simps) (simp add: session_get_def resp_json_def)
    then show ?thesis using 1[of ValueError] by simp
  qed
  have 7: "import_bitbucket env u True w
              = Some (Inl (PyException bitbucket_teams_msg),
                      w1\<lparr>http_log := http_log w1
                            @ [GET (JStr ''https://bitbucket.org/api/1.0/user/privileges/'')]\<rparr>)"
    if "bitbucket_user_phase env s u (Some a) w = Some (Inr (), w1)"
      "http env (http_log w1) s (GET (JStr ''https://bitbucket.org/api/1.0/user/privileges/''))
              = Inr resp"
      "json_body resp = None"
    for w1 resp
    using that by (intro 4[of w1 resp]) (simp_all add: session_get_def bitbucket_team_phase_def
        resp_json_def)
  from 1 2 3 4 5 6 7 show ?thesis by blast
qed

lemma alice_bitbucket_session:
  "social_tokens_filter (sample_env alice_tokens net) (username alice) BitbucketProvider_id
     = Inr (sample_token ''bitbucket'' # [])"
  by (simp add: sample_env_def alice_tokens_def tokens_of_def alice_def BitbucketProvider_id_def)

lemma alice_bitbucket_account:
  "socialaccount_get alice BitbucketProvider_id = Inr \<lparr>provider = ''bitbucket'', uid = ''alice-bb''\<rparr>"
  by (simp add: socialaccount_get_def alice_def BitbucketProvider_id_def)

lemma bitbucket_single_page:
  assumes "map_of tbl url = Some (json_page (JObj kvs) None)"
    and "\<not> truthy (case map_of kvs ''next'' of None \<Rightarrow> JNull | Some v \<Rightarrow> v)"
    and "url \<noteq> []"
  shows "bitbucket_paginate (sample_env toks (routes tbl)) s url w
           = Some (Inr [JObj kvs], w\<lparr>http_log := http_log w @ [GET (JStr url)]\<rparr>)"
proof -
  let ?env = "sample_env toks (routes tbl)"
  have chain: "bitbucket_pages ?env s (http_log w) (JStr url) [json_page (JObj kvs) None]"
    using assms
    by (auto simp: sample_env_def routes_def bitbucket_next_def json_page_def resp_json_def
          split: option.splits)
  have objs: "map bitbucket_page_object [json_page (JObj kvs) None] = map Some [JObj kvs]"
    by (simp add: bitbucket_page_object_def json_page_def)
  from bitbucket_loop_chain[OF chain objs, of "[]"] show ?thesis
    by (simp add: bitbucket_paginate_def)
qed

theorem import_bitbucket_reraise_policy_witness:
  "import_bitbucket (sample_env alice_tokens (routes repos_not_json_routes)) alice True w0
     = Some (Inl (PyException bitbucket_repos_msg),
             w0\<lparr>http_log := [GET (JStr bitbucket_repos_url)]\<rparr>)
   \<and> import_bitbucket (sample_env alice_tokens (routes privileges_not_json_routes)) alice True w0
     = Some (Inl (PyException bitbucket_teams_msg),
             w0\<lparr>http_log := [GET (JStr bitbucket_repos_url), GET (JStr bitbucket_privileges_url)]\<rparr>)
   \<and> bitbucket_repos_msg \<noteq> bitbucket_teams_msg"
proof -
  let ?e1 = "sample_env alice_tokens (routes repos_not_json_routes)"
  let ?e2 = "sample_env alice_tokens (routes privileges_not_json_routes)"
  let ?t = "sample_token ''bitbucket''"
  let ?s = "OAuth1Session (client_id (app ?t)) (secret (app ?t)) (token ?t) (token_secret ?t)"
  let ?a = "\<lparr>provider = ''bitbucket'', uid = ''alice-bb''\<rparr>"
  let ?url = "''https://bitbucket.org/api/2.0/repositories/'' @ uid ?a"
  let ?w1 = "w0\<lparr>http_log := http_log w0 @ [GET (JStr bitbucket_repos_url)]\<rparr>"
  let ?w2 = "?w1\<lparr>http_log := http_log ?w1 @ [GET (JStr bitbucket_privileges_url)]\<rparr>"
  have u: "?url = bitbucket_repos_url" by (simp add: bitbucket_repos_url_def)
  note T1 = import_bitbucket_reraise_policy[OF alice_bitbucket_session alice_bitbucket_account
      refl refl, of "routes repos_not_json_routes" w0]
  note T2 = import_bitbucket_reraise_policy[OF alice_bitbucket_session alice_bitbucket_account
      refl refl, of "routes privileges_not_json_routes" w0]
  have p1: "bitbucket_paginate ?e1 ?s ?url w0 = Some (Inl ValueError, ?w1)
            \<and> (ValueError = TypeError \<or> ValueError = ValueError)"
    unfolding u bitbucket_paginate_def
    by (subst bitbucket_paginate_loop.simps)
       (simp add: session_get_def sample_env_def routes_def repos_not_json_routes_def
          bitbucket_repos_url_def not_json_def resp_json_def)
  have page: "bitbucket_paginate ?e2 ?s bitbucket_repos_url w0
      = Some (Inr [JObj [(''values'', JArr [])]], ?w1)"
    using bitbucket_single_page[of privileges_not_json_routes bitbucket_repos_url
        "[(''values'', JArr [])]" alice_tokens ?s w0]
    by (simp add: privileges_not_json_routes_def bitbucket_repos_url_def)
  have p2: "bitbucket_user_phase ?e2 ?s alice (Some ?a) w0 = Some (Inr (), ?w1)
      \<and> session_get ?e2 ?s (JStr ''https://bitbucket.org/api/1.0/user/privileges/'') ?w1
           = (Inr not_json, ?w2)
      \<and> bitbucket_team_phase ?e2 ?s alice not_json ?w2 = Some (Inl ValueError, ?w2)"
  proof (intro conjI)
    show "bitbucket_user_phase ?e2 ?s alice (Some ?a) w0 = Some (Inr (), ?w1)"
      using page
      by (simp add: bitbucket_user_phase_def bitbucket_repos_url_def process_bitbucket_json_def)
    show "session_get ?e2 ?s (JStr ''https://bitbucket.org/api/1.0/user/privileges/'') ?w1
           = (Inr not_json, ?w2)"
      by (simp add: session_get_def sample_env_def routes_def privileges_not_json_routes_def
            bitbucket_repos_url_def bitbucket_privileges_url_def)
    show "bitbucket_team_phase ?e2 ?s alice not_json ?w2 = Some (Inl ValueError, ?w2)"
      by (simp add: bitbucket_team_phase_def resp_json_def not_json_def)
  qed
  from T1[THEN conjunct1, rule_format, OF p1]
       T2[THEN conjunct2, THEN conjunct2, THEN conjunct2, THEN conjunct1, rule_format, OF p2]
       T1[THEN conjunct2, THEN conjunct2, THEN conjunct2, THEN conjunct2, THEN conjunct1]
  show ?thesis by (simp add: w0_def)
qed

text \<open>
  A repository page with a number under \<^verbatim>\<open>values\<close> raises \<^verbatim>\<open>TypeError\<close> in the first
  phase: it is printed and the import returns true. A privileges answer that is an array
  raises \<^verbatim>\<open>TypeError\<close> in the team phase: the importer raises that \<^verbatim>\<open>TypeError\<close> itself.
  A privileges request that raises \<^verbatim>\<open>ValueError\<close> stands before the second \<^verbatim>\<open>try\<close>
  block: the importer raises that \<^verbatim>\<open>ValueError\<close> itself.
\<close>

theorem import_bitbucket_reraise_policy_counterexample:
  "import_bitbucket (sample_env alice_tokens (routes values_number_routes)) alice True w0
     = Some (Inr True,
             w0\<lparr>http_log := [GET (JStr bitbucket_repos_url), GET (JStr bitbucket_privileges_url)],
                 printed := [TypeError]\<rparr>)
   \<and> import_bitbucket (sample_env alice_tokens (routes privileges_array_routes)) alice True w0
     = Some (Inl TypeError,
             w0\<lparr>http_log := [GET (JStr bitbucket_repos_url), GET (JStr bitbucket_privileges_url)]\<rparr>)
   \<and> import_bitbucket (sample_env alice_tokens privileges_raises_http) alice True w0
     = Some (Inl ValueError,
             w0\<lparr>http_log := [GET (JStr bitbucket_repos_url), GET (JStr bitbucket_privileges_url)]\<rparr>)"
proof -
  let ?e1 = "sample_env alice_tokens (routes values_number_routes)"
  let ?e2 = "sample_env alice_tokens (routes privileges_array_routes)"
  let ?e3 = "sample_env alice_tokens privileges_raises_http"
  let ?s = "OAuth1Session ''client-id'' ''client-secret'' ''access-token'' ''token-secret''"
  let ?a = "\<lparr>provider = ''bitbucket'', uid = ''alice-bb''\<rparr>"
  let ?priv = "JStr ''https://bitbucket.org/api/1.0/user/privileges/''"
  let ?w1 = "\<lparr>http_log = [GET (JStr bitbucket_repos_url)], db = [], printed = [],
              logged = []\<rparr> :: json list world"
  let ?w1p = "\<lparr>http_log = [GET (JStr bitbucket_repos_url)], db = [], printed = [TypeError],
              logged = []\<rparr> :: json list world"
  let ?w2 = "\<lparr>http_log = [GET (JStr bitbucket_repos_url), GET (JStr bitbucket_privileges_url)],
              db = [], printed = [], logged = []\<rparr> :: json list world"
  let ?w2p = "\<lparr>http_log = [GET (JStr bitbucket_repos_url), GET (JStr bitbucket_privileges_url)],
              db = [], printed = [TypeError], logged = []\<rparr> :: json list world"
  have s: "get_oauth_session (sample_env alice_tokens net) alice BitbucketProvider_id
             = Inr (Some ?s)" for net
    using alice_bitbucket_session[of net]
    by (simp add: get_oauth_session_def sample_token_def
          BitbucketProvider_id_def GitHubProvider_id_def)
  have p1: "bitbucket_paginate ?e1 ?s bitbucket_repos_url w0
      = Some (Inr [JObj [(''values'', JNum 5)]], ?w1)"
    using bitbucket_single_page[of values_number_routes bitbucket_repos_url
        "[(''values'', JNum 5)]" alice_tokens ?s w0]
    by (simp add: values_number_routes_def bitbucket_repos_url_def w0_def)
  have p2: "bitbucket_paginate ?e2 ?s bitbucket_repos_url w0
      = Some (Inr [JObj [(''values'', JArr [])]], ?w1)"
    using bitbucket_single_page[of privileges_array_routes bitbucket_repos_url
        "[(''values'', JArr [])]" alice_tokens ?s w0]
    by (simp add: privileges_array_routes_def bitbucket_repos_url_def w0_def)
  have up1: "bitbucket_user_phase ?e1 ?s alice (Some ?a) w0 = Some (Inr (), ?w1p)"
    using p1 by (simp add: bitbucket_user_phase_def bitbucket_repos_url_def process_bitbucket_json_def)
  have sg1: "session_get ?e1 ?s ?priv ?w1p
      = (Inr (json_page (JObj [(''teams'', JObj [])]) None), ?w2p)"
    by (simp add: session_get_def sample_env_def routes_def values_number_routes_def
          bitbucket_repos_url_def bitbucket_privileges_url_def)
  have tp1: "bitbucket_team_phase ?e1 ?s alice (json_page (JObj [(''teams'', JObj [])]) None) ?w2p
      = Some (Inr (), ?w2p)"
    by (simp add: bitbucket_team_phase_def resp_json_def json_page_def)
  have 1: "import_bitbucket ?e1 alice True w0 = Some (Inr True, ?w2p)"
    by (simp add: import_bitbucket_def s alice_bitbucket_account up1 sg1 tp1)
  have up2: "bitbucket_user_phase ?e2 ?s alice (Some ?a) w0 = Some (Inr (), ?w1)"
    using p2 by (simp add: bitbucket_user_phase_def bitbucket_repos_url_def process_bitbucket_json_def)
  have sg2: "session_get ?e2 ?s ?priv ?w1 = (Inr (json_page (JArr []) None), ?w2)"
    by (simp add: session_get_def sample_env_def routes_def privileges_array_routes_def
          bitbucket_repos_url_def bitbucket_privileges_url_def)
  have tp2: "bitbucket_team_phase ?e2 ?s alice (json_page (JArr []) None) ?w2
      = Some (Inl TypeError, ?w2)"
    by (simp add: bitbucket_team_phase_def resp_json_def json_page_def)
  have 2: "import_bitbucket ?e2 alice True w0 = Some (Inl TypeError, ?w2)"
    by (simp add: import_bitbucket_def s alice_bitbucket_account up2 sg2 tp2)
  have chain3: "bitbucket_pages ?e3 ?s (http_log w0) (JStr bitbucket_repos_url)
      [json_page (JObj [(''values'', JArr [])]) None]"
    by (simp add: sample_env_def privileges_raises_http_def routes_def
          privileges_array_routes_def bitbucket_repos_url_def bitbucket_privileges_url_def
          bitbucket_next_def json_page_def resp_json_def)
  have objs3: "map bitbucket_page_object [json_page (JObj [(''values'', JArr [])]) None]
      = map Some [JObj [(''values'', JArr [])]]"
    by (simp add: bitbucket_page_object_def json_page_def)
  have p3: "bitbucket_paginate ?e3 ?s bitbucket_repos_url w0
      = Some (Inr [JObj [(''values'', JArr [])]], ?w1)"
    using bitbucket_loop_chain[OF chain3 objs3, of "[]"]
    by (simp add: bitbucket_paginate_def w0_def)
  have up3: "bitbucket_user_phase ?e3 ?s alice (Some ?a) w0 = Some (Inr (), ?w1)"
    using p3 by (simp add: bitbucket_user_phase_def bitbucket_repos_url_def process_bitbucket_json_def)
  have sg3: "session_get ?e3 ?s ?priv ?w1 = (Inl ValueError, ?w2)"
    by (simp add: session_get_def sample_env_def privileges_raises_http_def
          bitbucket_privileges_url_def)
  have 3: "import_bitbucket ?e3 alice True w0 = Some (Inl ValueError, ?w2)"
    by (simp add: import_bitbucket_def s alice_bitbucket_account up3 sg3)
  from 1 2 3 show ?thesis by (simp add: w0_def)
qed



end
